theory Spec2Isabelle
  imports Main "HOL-Library.AList" "HOL-Library.Word"
begin

section \<open>Values, documents and request models\<close>

text \<open>
  The document store keeps free-form documents. A document (a Python dict, a BSON
  document, a row of a dict cursor) is an association list from field names to values,
  in insertion order. Floating-point readings are only carried from the request to the
  store and back and never computed with: a float is the 64 bits of its binary64
  representation.
\<close>

datatype pyfloat = Float64 "64 word"

datatype pydate = Date int int int

datatype pytime = Time int int int int

datatype pydatetime = DateTime pydate pytime

datatype val =
    VNone
  | VInt int
  | VFloat pyfloat
  | VStr string
  | VBool bool
  | VDate pydate
  | VDateTime pydatetime
  | VObjectId nat

type_synonym doc = "(string \<times> val) list"

text \<open>\<open>d[k] = v\<close> on a dict: an existing key keeps its place, a new key goes last.\<close>

definition dict_set :: "doc \<Rightarrow> string \<Rightarrow> val \<Rightarrow> doc" where
  "dict_set d k v = AList.update k v d"

text \<open>\<open>datetime.min.time()\<close> and \<open>datetime.combine\<close>.\<close>

definition datetime_min_time :: pytime where
  "datetime_min_time = Time 0 0 0 0"

definition datetime_combine :: "pydate \<Rightarrow> pytime \<Rightarrow> pydatetime" where
  "datetime_combine d t = DateTime d t"

text \<open>
  The two lines
  \<^verbatim>\<open>if isinstance(data["date"], date):
      data["date"] = datetime.combine(data["date"], datetime.min.time())\<close>
  of the observation handlers. A \<open>datetime\<close> is an instance of \<open>date\<close> too, and
  \<open>datetime.combine\<close> then takes its date part.
\<close>

definition promote_date :: "doc \<Rightarrow> doc" where
  "promote_date data =
     (case map_of data ''date'' of
        Some (VDate d) \<Rightarrow> dict_set data ''date'' (VDateTime (datetime_combine d datetime_min_time))
      | Some (VDateTime (DateTime d t)) \<Rightarrow>
          dict_set data ''date'' (VDateTime (datetime_combine d datetime_min_time))
      | _ \<Rightarrow> data)"

subsection \<open>The pydantic request models of \<open>api/models.py\<close>\<close>

record LocationBase =
  name :: string
  state :: "string option"

record ObservationBase =
  location_id :: int
  date :: pydate
  min_temp :: "pyfloat option"
  max_temp :: "pyfloat option"
  rainfall :: "pyfloat option"
  humidity_9am :: "pyfloat option"
  humidity_3pm :: "pyfloat option"
  pressure_9am :: "pyfloat option"
  pressure_3pm :: "pyfloat option"
  wind_speed_9am :: "pyfloat option"
  wind_speed_3pm :: "pyfloat option"
  wind_dir_9am :: "string option"
  wind_dir_3pm :: "string option"
  cloud_9am :: "pyfloat option"
  cloud_3pm :: "pyfloat option"
  temp_9am :: "pyfloat option"
  temp_3pm :: "pyfloat option"
  rain_today :: "bool option"
  rain_tomorrow :: "bool option"

text \<open>
  \<open>MongoPredictionBase\<close> declares the two fields of \<open>PredictionBase\<close> again and adds
  \<open>predicted_at\<close>; the record extension shares the two selectors.
\<close>

record PredictionBase =
  observation_id :: int
  will_it_rain :: bool

record MongoPredictionBase = PredictionBase +
  predicted_at :: pydatetime

definition opt :: "('a \<Rightarrow> val) \<Rightarrow> 'a option \<Rightarrow> val" where
  "opt f x = (case x of None \<Rightarrow> VNone | Some a \<Rightarrow> f a)"

text \<open>The \<open>.dict()\<close> of each request model: its fields in declaration order.\<close>

definition LocationBase_dict :: "LocationBase \<Rightarrow> doc" where
  "LocationBase_dict loc = [(''name'', VStr (name loc)), (''state'', opt VStr (state loc))]"

definition ObservationBase_dict :: "ObservationBase \<Rightarrow> doc" where
  "ObservationBase_dict obs =
     [(''location_id'', VInt (location_id obs)),
      (''date'', VDate (date obs)),
      (''min_temp'', opt VFloat (min_temp obs)),
      (''max_temp'', opt VFloat (max_temp obs)),
      (''rainfall'', opt VFloat (rainfall obs)),
      (''humidity_9am'', opt VFloat (humidity_9am obs)),
      (''humidity_3pm'', opt VFloat (humidity_3pm obs)),
      (''pressure_9am'', opt VFloat (pressure_9am obs)),
      (''pressure_3pm'', opt VFloat (pressure_3pm obs)),
      (''wind_speed_9am'', opt VFloat (wind_speed_9am obs)),
      (''wind_speed_3pm'', opt VFloat (wind_speed_3pm obs)),
      (''wind_dir_9am'', opt VStr (wind_dir_9am obs)),
      (''wind_dir_3pm'', opt VStr (wind_dir_3pm obs)),
      (''cloud_9am'', opt VFloat (cloud_9am obs)),
      (''cloud_3pm'', opt VFloat (cloud_3pm obs)),
      (''temp_9am'', opt VFloat (temp_9am obs)),
      (''temp_3pm'', opt VFloat (temp_3pm obs)),
      (''rain_today'', opt VBool (rain_today obs)),
      (''rain_tomorrow'', opt VBool (rain_tomorrow obs))]"

definition PredictionBase_dict :: "'a PredictionBase_scheme \<Rightarrow> doc" where
  "PredictionBase_dict pred =
     [(''observation_id'', VInt (observation_id pred)),
      (''will_it_rain'', VBool (will_it_rain pred))]"

definition MongoPredictionBase_dict :: "MongoPredictionBase \<Rightarrow> doc" where
  "MongoPredictionBase_dict pred =
     [(''observation_id'', VInt (observation_id pred)),
      (''will_it_rain'', VBool (will_it_rain pred)),
      (''predicted_at'', VDateTime (predicted_at pred))]"

subsection \<open>The pydantic response models\<close>

text \<open>
  A response model is built from keyword arguments and turned back into a dict. Each
  declared field is looked up by name: a missing field takes its default or, without
  one, fails validation; a present one must have the declared type, or be \<open>None\<close>
  where the field is \<open>Optional\<close>; keyword arguments that are not fields are dropped. A
  value that already is an instance of the declared type (of one member of
  \<open>Union[date, datetime]\<close>) is kept as it is. Pydantic's lenient conversions between
  types (a numeric string for an \<open>int\<close>, say) are left out: such a value is rejected
  here.
\<close>

datatype ftype = TInt | TFloat | TStr | TBool | TDate | TDateOrDateTime | TDateTime

fun has_type :: "ftype \<Rightarrow> val \<Rightarrow> bool" where
  "has_type TInt (VInt _) = True"
| "has_type TFloat (VFloat _) = True"
| "has_type TStr (VStr _) = True"
| "has_type TBool (VBool _) = True"
| "has_type TDate (VDate _) = True"
| "has_type TDateOrDateTime (VDate _) = True"
| "has_type TDateOrDateTime (VDateTime _) = True"
| "has_type TDateTime (VDateTime _) = True"
| "has_type _ _ = False"

text \<open>A field: its name, its type, whether it is \<open>Optional\<close>, and its default if any.\<close>

type_synonym field = "string \<times> ftype \<times> bool \<times> val option"

definition required :: "string \<Rightarrow> ftype \<Rightarrow> field" where
  "required k t = (k, t, False, None)"

definition optional :: "string \<Rightarrow> ftype \<Rightarrow> field" where
  "optional k t = (k, t, True, Some VNone)"

fun validate_field :: "field \<Rightarrow> doc \<Rightarrow> (string \<times> val) option" where
  "validate_field (k, t, nullable, dflt) kw =
     (case map_of kw k of
        None \<Rightarrow> (case dflt of None \<Rightarrow> None | Some v \<Rightarrow> Some (k, v))
      | Some v \<Rightarrow>
          if (nullable \<and> v = VNone) \<or> has_type t v then Some (k, v) else None)"

fun validate_fields :: "field list \<Rightarrow> doc \<Rightarrow> doc option" where
  "validate_fields [] kw = Some []"
| "validate_fields (f # fs) kw =
     (case validate_field f kw of
        None \<Rightarrow> None
      | Some p \<Rightarrow>
          (case validate_fields fs kw of None \<Rightarrow> None | Some ps \<Rightarrow> Some (p # ps)))"

definition MongoLocation_fields :: "field list" where
  "MongoLocation_fields =
     [required ''name'' TStr, optional ''state'' TStr, required ''location_id'' TInt]"

definition MongoObservation_fields :: "field list" where
  "MongoObservation_fields =
     [required ''location_id'' TInt,
      required ''date'' TDateOrDateTime,
      optional ''min_temp'' TFloat,
      optional ''max_temp'' TFloat,
      optional ''rainfall'' TFloat,
      optional ''humidity_9am'' TFloat,
      optional ''humidity_3pm'' TFloat,
      optional ''pressure_9am'' TFloat,
      optional ''pressure_3pm'' TFloat,
      optional ''wind_speed_9am'' TFloat,
      optional ''wind_speed_3pm'' TFloat,
      optional ''wind_dir_9am'' TStr,
      optional ''wind_dir_3pm'' TStr,
      optional ''cloud_9am'' TFloat,
      optional ''cloud_3pm'' TFloat,
      optional ''temp_9am'' TFloat,
      optional ''temp_3pm'' TFloat,
      optional ''rain_today'' TBool,
      optional ''rain_tomorrow'' TBool,
      required ''observation_id'' TInt]"

text \<open>
  \<open>predicted_at\<close> of \<open>MongoPrediction\<close> defaults to \<open>datetime.utcnow()\<close>, the second
  reading of the clock that the prediction handlers take as an argument.
\<close>

definition MongoPrediction_fields :: "pydatetime \<Rightarrow> field list" where
  "MongoPrediction_fields utcnow =
     [required ''observation_id'' TInt,
      required ''will_it_rain'' TBool,
      (''predicted_at'', TDateTime, False, Some (VDateTime utcnow)),
      required ''prediction_id'' TInt,
      required ''location_id'' TInt]"

text \<open>\<open>{k: doc.get(k) for k in doc if k != '_id'}\<close>\<close>

definition without_id :: "doc \<Rightarrow> doc" where
  "without_id d = filter (\<lambda>(k, v). k \<noteq> ''_id'') d"

section \<open>Errors\<close>

text \<open>
  The Python exceptions that the handlers can raise by themselves, and the
  \<open>HTTPException\<close> they hand to the framework: its status code and what its detail
  message names. The wording of the messages is not modelled.
\<close>

datatype py_exception =
    KeyError string
  | IndexError
  | TypeError
  | UnboundLocalError string
  | ValidationError string

datatype detail =
    LocationNotFoundCreateFirst val
  | LocationNotFound int
  | ObservationNotFound int
  | PredictionNotFound int
  | NotFound string
  | Failed string py_exception

datatype http_error = HTTPException int detail

section \<open>The document store\<close>

text \<open>
  \<open>db_mongo\<close> holds the counters and the three collections. A counter document
  \<open>{_id: name, sequence_value: n}\<close> is kept as the entry \<open>name \<mapsto> n\<close> of a map;
  a collection is the list of its documents in natural order. The store is taken to
  answer every call, and the best-effort validators of \<open>setup_mongodb_validation\<close>
  are not part of the model.
\<close>

record db_mongo =
  counters :: "string \<rightharpoonup> int"
  locations :: "doc list"
  weather_observations :: "doc list"
  rain_predictions :: "doc list"

text \<open>A filter \<open>{k: v, ...}\<close> matches a document that holds each \<open>v\<close> under \<open>k\<close>.\<close>

definition matches :: "doc \<Rightarrow> doc \<Rightarrow> bool" where
  "matches flt d = list_all (\<lambda>(k, v). map_of d k = Some v) flt"

definition find_one :: "doc list \<Rightarrow> doc \<Rightarrow> doc option" where
  "find_one coll flt = List.find (matches flt) coll"

text \<open>
  BSON keeps a timestamp in milliseconds, so a stored \<open>datetime\<close> comes back with its
  microseconds cut to a multiple of 1000.
\<close>

fun bson :: "val \<Rightarrow> val" where
  "bson (VDateTime (DateTime d (Time h m s us))) =
     VDateTime (DateTime d (Time h m s (us div 1000 * 1000)))"
| "bson v = v"

definition bson_doc :: "doc \<Rightarrow> doc" where
  "bson_doc d = map (\<lambda>(k, v). (k, bson v)) d"

text \<open>
  \<open>insert_one\<close> gives the document a new \<open>ObjectId\<close>, one that no document of the
  collection carries, and appends it. The handlers never supply an \<open>_id\<close> themselves.
\<close>

definition oid_of :: "doc \<Rightarrow> nat" where
  "oid_of d = (case map_of d ''_id'' of Some (VObjectId n) \<Rightarrow> n | _ \<Rightarrow> 0)"

definition new_object_id :: "doc list \<Rightarrow> nat" where
  "new_object_id coll = Suc (foldr max (map oid_of coll) 0)"

definition insert_one :: "doc list \<Rightarrow> doc \<Rightarrow> val \<times> doc list" where
  "insert_one coll d =
     (let inserted_id = VObjectId (new_object_id coll)
      in (inserted_id, coll @ [(''_id'', inserted_id) # bson_doc d]))"

text \<open>\<open>update_one(filter, {"$set": upd})\<close> changes the first match; it returns \<open>matched_count\<close>.\<close>

definition apply_set :: "doc \<Rightarrow> doc \<Rightarrow> doc" where
  "apply_set upd d = foldl (\<lambda>d (k, v). dict_set d k (bson v)) d upd"

fun update_one :: "doc list \<Rightarrow> doc \<Rightarrow> doc \<Rightarrow> nat \<times> doc list" where
  "update_one [] flt upd = (0, [])"
| "update_one (d # ds) flt upd =
     (if matches flt d then (1, apply_set upd d # ds)
      else (let (n, ds') = update_one ds flt upd in (n, d # ds')))"

text \<open>\<open>delete_one(filter)\<close> removes the first match; it returns \<open>deleted_count\<close>.\<close>

fun delete_one :: "doc list \<Rightarrow> doc \<Rightarrow> nat \<times> doc list" where
  "delete_one [] flt = (0, [])"
| "delete_one (d # ds) flt =
     (if matches flt d then (1, ds)
      else (let (n, ds') = delete_one ds flt in (n, d # ds')))"

section \<open>Sequence allocator and referential validator\<close>

text \<open>
  \<open>find_one_and_update({"_id": name}, {"$inc": {"sequence_value": 1}}, upsert=True,
  return_document=True)\<close>: one store operation that adds 1 to the counter, creating it
  from nothing when absent, and returns the document after the update.
\<close>

definition get_next_sequence_value :: "string \<Rightarrow> db_mongo \<Rightarrow> int \<times> db_mongo" where
  "get_next_sequence_value collection_name s =
     (let sequence_value = (case counters s collection_name of None \<Rightarrow> 0 | Some n \<Rightarrow> n) + 1
      in (sequence_value, s\<lparr>counters := (counters s)(collection_name \<mapsto> sequence_value)\<rparr>))"

definition verify_location_exists :: "val \<Rightarrow> db_mongo \<Rightarrow> http_error + bool" where
  "verify_location_exists loc_id s =
     (case find_one (locations s) [(''location_id'', loc_id)] of
        None \<Rightarrow> Inl (HTTPException 404 (LocationNotFoundCreateFirst loc_id))
      | Some location \<Rightarrow> Inr True)"

section \<open>The document-store handlers\<close>

text \<open>
  Each handler takes the store and returns what it hands to the framework, the
  \<open>data\<close> member of its \<open>{message, data}\<close> envelope or the \<open>HTTPException\<close> it
  raises, together with the store it leaves behind. A read handler leaves the store as it
  is and returns the result alone. The message is left out, except that a lookup
  \<open>doc[k]\<close> made to build it raises \<open>KeyError\<close> on a missing key, as any other does.
  Values are compared structurally: \<open>!=\<close> and the store's filters do not identify the
  integer 1 with the float 1.0.
\<close>

definition validate_model :: "string \<Rightarrow> field list \<Rightarrow> doc \<Rightarrow> py_exception + doc" where
  "validate_model cls fs kw =
     (case validate_fields fs kw of
        None \<Rightarrow> Inl (ValidationError cls)
      | Some d \<Rightarrow> Inr d)"

definition create_mongo_location :: "LocationBase \<Rightarrow> db_mongo \<Rightarrow> (http_error + doc) \<times> db_mongo" where
  "create_mongo_location loc s =
     (let (loc_id, s1) = get_next_sequence_value ''locations'' s;
          data = LocationBase_dict loc;
          data = dict_set data ''location_id'' (VInt loc_id);
          (inserted_id, coll) = insert_one (locations s1) data;
          s2 = s1\<lparr>locations := coll\<rparr>
      in case validate_model ''MongoLocation'' MongoLocation_fields data of
           Inl e \<Rightarrow> (Inl (HTTPException 500 (Failed ''create location'' e)), s2)
         | Inr created_loc \<Rightarrow> (Inr created_loc, s2))"

definition delete_mongo_location :: "int \<Rightarrow> db_mongo \<Rightarrow> (http_error + unit) \<times> db_mongo" where
  "delete_mongo_location loc_id s =
     (case find_one (locations s) [(''location_id'', VInt loc_id)] of
        None \<Rightarrow> (Inl (HTTPException 404 (LocationNotFound loc_id)), s)
      | Some doc \<Rightarrow>
          (case map_of doc ''name'' of
             None \<Rightarrow> (Inl (HTTPException 500 (Failed ''delete location'' (KeyError ''name''))), s)
           | Some location_name \<Rightarrow>
               (let (deleted_count, coll) = delete_one (locations s) [(''location_id'', VInt loc_id)];
                    s1 = s\<lparr>locations := coll\<rparr>
                in if deleted_count = 0
                   then (Inl (HTTPException 404 (LocationNotFound loc_id)), s1)
                   else (Inr (), s1))))"

definition create_mongo_observation ::
  "ObservationBase \<Rightarrow> db_mongo \<Rightarrow> (http_error + doc) \<times> db_mongo" where
  "create_mongo_observation obs s =
     (case verify_location_exists (VInt (location_id obs)) s of
        Inl e \<Rightarrow> (Inl e, s)
      | Inr ok \<Rightarrow>
          (let (obs_id, s1) = get_next_sequence_value ''observations'' s;
               data = ObservationBase_dict obs;
               data = promote_date data;
               data = dict_set data ''observation_id'' (VInt obs_id);
               (inserted_id, coll) = insert_one (weather_observations s1) data;
               s2 = s1\<lparr>weather_observations := coll\<rparr>
           in case find_one coll [(''_id'', inserted_id)] of
                None \<Rightarrow> (Inl (HTTPException 500 (Failed ''create observation'' TypeError)), s2)
              | Some saved_data \<Rightarrow>
                  (case validate_model ''MongoObservation'' MongoObservation_fields
                          (without_id saved_data) of
                     Inl e \<Rightarrow> (Inl (HTTPException 500 (Failed ''create observation'' e)), s2)
                   | Inr created_obs \<Rightarrow> (Inr created_obs, s2))))"

definition read_mongo_observation :: "int \<Rightarrow> db_mongo \<Rightarrow> http_error + doc" where
  "read_mongo_observation obs_id s =
     (case find_one (weather_observations s) [(''observation_id'', VInt obs_id)] of
        None \<Rightarrow> Inl (HTTPException 404 (ObservationNotFound obs_id))
      | Some doc \<Rightarrow>
          (case validate_model ''MongoObservation'' MongoObservation_fields (without_id doc) of
             Inl e \<Rightarrow> Inl (HTTPException 500 (Failed ''retrieve observation'' e))
           | Inr observation \<Rightarrow>
               (case map_of doc ''location_id'' of
                  None \<Rightarrow>
                    Inl (HTTPException 500
                          (Failed ''retrieve observation'' (KeyError ''location_id'')))
                | Some l \<Rightarrow>
                    (case map_of doc ''date'' of
                       None \<Rightarrow>
                         Inl (HTTPException 500
                               (Failed ''retrieve observation'' (KeyError ''date'')))
                     | Some d \<Rightarrow> Inr observation))))"

definition update_mongo_observation ::
  "int \<Rightarrow> ObservationBase \<Rightarrow> db_mongo \<Rightarrow> (http_error + doc) \<times> db_mongo" where
  "update_mongo_observation obs_id obs s =
     (case (if location_id obs \<noteq> 0 then verify_location_exists (VInt (location_id obs)) s
            else Inr True) of
        Inl e \<Rightarrow> (Inl e, s)
      | Inr ok \<Rightarrow>
          (let data = ObservationBase_dict obs;
               data = promote_date data;
               (matched_count, coll) =
                  update_one (weather_observations s) [(''observation_id'', VInt obs_id)] data;
               s1 = s\<lparr>weather_observations := coll\<rparr>
           in if matched_count = 0
              then (Inl (HTTPException 404 (ObservationNotFound obs_id)), s1)
              else
                (case find_one coll [(''observation_id'', VInt obs_id)] of
                   None \<Rightarrow> (Inl (HTTPException 500 (Failed ''update observation'' TypeError)), s1)
                 | Some doc \<Rightarrow>
                     (case validate_model ''MongoObservation'' MongoObservation_fields
                             (without_id doc) of
                        Inl e \<Rightarrow> (Inl (HTTPException 500 (Failed ''update observation'' e)), s1)
                      | Inr updated_obs \<Rightarrow> (Inr updated_obs, s1)))))"

text \<open>
  The prediction handlers read the clock: \<open>now\<close> is what \<open>datetime.now()\<close> returns
  during the call and \<open>utcnow\<close> what the default of \<open>predicted_at\<close> would be.
\<close>

definition create_mongo_prediction ::
  "MongoPredictionBase \<Rightarrow> pydatetime \<Rightarrow> pydatetime \<Rightarrow> db_mongo
     \<Rightarrow> (http_error + doc) \<times> db_mongo" where
  "create_mongo_prediction pred now utcnow s =
     (let (pred_id, s1) = get_next_sequence_value ''predictions'' s
      in case find_one (weather_observations s1)
                [(''observation_id'', VInt (observation_id pred))] of
           None \<Rightarrow> (Inl (HTTPException 404 (ObservationNotFound (observation_id pred))), s1)
         | Some observation \<Rightarrow>
             (case map_of observation ''location_id'' of
                None \<Rightarrow>
                  (Inl (HTTPException 500
                         (Failed ''create prediction'' (KeyError ''location_id''))), s1)
              | Some loc_id \<Rightarrow>
                  (case verify_location_exists loc_id s1 of
                     Inl e \<Rightarrow> (Inl e, s1)
                   | Inr ok \<Rightarrow>
                       (let data = MongoPredictionBase_dict pred;
                            data = dict_set data ''location_id'' loc_id;
                            data = dict_set data ''prediction_id'' (VInt pred_id);
                            data = dict_set data ''predicted_at'' (VDateTime now);
                            (inserted_id, coll) = insert_one (rain_predictions s1) data;
                            s2 = s1\<lparr>rain_predictions := coll\<rparr>
                        in case find_one coll [(''_id'', inserted_id)] of
                             None \<Rightarrow>
                               (Inl (HTTPException 500
                                      (Failed ''create prediction'' TypeError)), s2)
                           | Some saved_data \<Rightarrow>
                               (case validate_model ''MongoPrediction''
                                       (MongoPrediction_fields utcnow) (without_id saved_data) of
                                  Inl e \<Rightarrow>
                                    (Inl (HTTPException 500 (Failed ''create prediction'' e)), s2)
                                | Inr created_pred \<Rightarrow> (Inr created_pred, s2))))))"

definition read_mongo_prediction :: "int \<Rightarrow> pydatetime \<Rightarrow> db_mongo \<Rightarrow> http_error + doc" where
  "read_mongo_prediction pred_id utcnow s =
     (case find_one (rain_predictions s) [(''prediction_id'', VInt pred_id)] of
        None \<Rightarrow> Inl (HTTPException 404 (PredictionNotFound pred_id))
      | Some doc \<Rightarrow>
          (case validate_model ''MongoPrediction'' (MongoPrediction_fields utcnow)
                  (without_id doc) of
             Inl e \<Rightarrow> Inl (HTTPException 500 (Failed ''retrieve prediction'' e))
           | Inr prediction \<Rightarrow>
               (case map_of doc ''will_it_rain'' of
                  None \<Rightarrow>
                    Inl (HTTPException 500
                          (Failed ''retrieve prediction'' (KeyError ''will_it_rain'')))
                | Some w \<Rightarrow>
                    (case map_of doc ''location_id'' of
                       None \<Rightarrow>
                         Inl (HTTPException 500
                               (Failed ''retrieve prediction'' (KeyError ''location_id'')))
                     | Some l \<Rightarrow>
                         (case map_of doc ''predicted_at'' of
                            None \<Rightarrow>
                              Inl (HTTPException 500
                                    (Failed ''retrieve prediction'' (KeyError ''predicted_at'')))
                          | Some t \<Rightarrow> Inr prediction)))))"

text \<open>
  In \<open>update_mongo_prediction\<close> the branch taken when the submitted \<open>observation_id\<close>
  differs from the stored one ends in \<open>data["location_id"] = observation["location_id"]\<close>.
  The name \<open>data\<close> is local to the function and receives its first value only on the
  line \<open>data = pred.dict()\<close> after the branch, so the assignment raises
  \<open>UnboundLocalError\<close>, which the handler's \<open>except Exception\<close> turns into a 500.
\<close>

definition update_mongo_prediction ::
  "int \<Rightarrow> PredictionBase \<Rightarrow> pydatetime \<Rightarrow> pydatetime \<Rightarrow> db_mongo
     \<Rightarrow> (http_error + doc) \<times> db_mongo" where
  "update_mongo_prediction pred_id pred now utcnow s =
     (case find_one (rain_predictions s) [(''prediction_id'', VInt pred_id)] of
        None \<Rightarrow> (Inl (HTTPException 404 (PredictionNotFound pred_id)), s)
      | Some existing \<Rightarrow>
          (case map_of existing ''observation_id'' of
             None \<Rightarrow>
               (Inl (HTTPException 500
                      (Failed ''update prediction'' (KeyError ''observation_id''))), s)
           | Some stored \<Rightarrow>
               if VInt (observation_id pred) \<noteq> stored
               then
                 (case find_one (weather_observations s)
                         [(''observation_id'', VInt (observation_id pred))] of
                    None \<Rightarrow>
                      (Inl (HTTPException 404 (ObservationNotFound (observation_id pred))), s)
                  | Some observation \<Rightarrow>
                      (case map_of observation ''location_id'' of
                         None \<Rightarrow>
                           (Inl (HTTPException 500
                                  (Failed ''update prediction'' (KeyError ''location_id''))), s)
                       | Some loc_id \<Rightarrow>
                           (case verify_location_exists loc_id s of
                              Inl e \<Rightarrow> (Inl e, s)
                            | Inr ok \<Rightarrow>
                                (Inl (HTTPException 500
                                       (Failed ''update prediction''
                                          (UnboundLocalError ''data''))), s))))
               else
                 (let data = PredictionBase_dict pred;
                      data = dict_set data ''predicted_at'' (VDateTime now);
                      (matched_count, coll) =
                         update_one (rain_predictions s) [(''prediction_id'', VInt pred_id)] data;
                      s1 = s\<lparr>rain_predictions := coll\<rparr>
                  in if matched_count = 0
                     then (Inl (HTTPException 404 (PredictionNotFound pred_id)), s1)
                     else
                       (case find_one coll [(''prediction_id'', VInt pred_id)] of
                          None \<Rightarrow>
                            (Inl (HTTPException 500 (Failed ''update prediction'' TypeError)), s1)
                        | Some doc \<Rightarrow>
                            (case validate_model ''MongoPrediction''
                                    (MongoPrediction_fields utcnow) (without_id doc) of
                               Inl e \<Rightarrow>
                                 (Inl (HTTPException 500 (Failed ''update prediction'' e)), s1)
                             | Inr updated_pred \<Rightarrow> (Inr updated_pred, s1))))))"

section \<open>The relational store\<close>

text \<open>
  The relational handlers work through psycopg2: \<open>get_db_connection()\<close> opens a
  connection, \<open>cursor.execute\<close> sends one of fifteen statements, and
  \<open>conn.close()\<close> releases the connection. The statements, with their parameters:
\<close>

datatype statement =
    INSERT_locations string "string option"
  | SELECT_locations
  | SELECT_locations_WHERE int
  | UPDATE_locations string "string option" int
  | DELETE_locations int
  | INSERT_weather_observations ObservationBase
  | SELECT_weather_observations
  | SELECT_weather_observations_WHERE int
  | UPDATE_weather_observations ObservationBase int
  | DELETE_weather_observations int
  | INSERT_rain_predictions int bool
  | SELECT_rain_predictions
  | SELECT_rain_predictions_WHERE int
  | UPDATE_rain_predictions int bool int
  | DELETE_rain_predictions int

text \<open>
  What a cursor holds after \<open>execute\<close>: the rows of the result, each a list of
  columns with their names, and \<open>rowcount\<close>. A plain cursor hands a row out as the
  tuple of its values, a \<open>RealDictCursor\<close> as a dict.
\<close>

record cursor =
  fetched :: "doc list"
  rowcount :: nat

text \<open>
  The database server is an argument of the handlers: an engine runs a statement on a
  database and either raises a \<open>psycopg2.Error\<close> or returns the cursor contents and
  the database after the statement. \<open>conn.commit()\<close>, \<open>cursor.close()\<close> and
  \<open>fetchone\<close> are taken not to raise, and a statement takes effect when it is
  executed.
\<close>

type_synonym 'db engine = "statement \<Rightarrow> 'db \<Rightarrow> string + (cursor \<times> 'db)"

text \<open>
  The state on the relational side: the connections opened so far, each open
  (\<open>True\<close>) or closed, and the database. A connection is known by its position.
\<close>

record 'db postgres =
  connections :: "bool list"
  database :: 'db

datatype exn =
    Psycopg2Error string
  | Http http_error
  | Python py_exception

datatype response = Record doc | Records "doc list" | NoContent

definition get_db_connection :: "'db postgres \<Rightarrow> nat \<times> 'db postgres" where
  "get_db_connection w = (length (connections w), w\<lparr>connections := connections w @ [True]\<rparr>)"

definition conn_close :: "nat \<Rightarrow> 'db postgres \<Rightarrow> 'db postgres" where
  "conn_close conn w = w\<lparr>connections := (connections w)[conn := False]\<rparr>"

definition execute ::
  "'db engine \<Rightarrow> statement \<Rightarrow> 'db postgres \<Rightarrow> string + (cursor \<times> 'db postgres)" where
  "execute eng stmt w =
     (case eng stmt (database w) of
        Inl e \<Rightarrow> Inl e
      | Inr (cur, db) \<Rightarrow> Inr (cur, w\<lparr>database := db\<rparr>))"

definition fetchone :: "cursor \<Rightarrow> doc option" where
  "fetchone cur = (case fetched cur of [] \<Rightarrow> None | row # rest \<Rightarrow> Some row)"

text \<open>\<open>not row\<close>: no row at all, or a row without columns.\<close>

definition not_row :: "doc option \<Rightarrow> bool" where
  "not_row row = (row = None \<or> row = Some [])"

definition Location_fields :: "field list" where
  "Location_fields =
     [required ''name'' TStr, optional ''state'' TStr, required ''location_id'' TInt]"

definition Observation_fields :: "field list" where
  "Observation_fields =
     [required ''location_id'' TInt,
      required ''date'' TDate,
      optional ''min_temp'' TFloat,
      optional ''max_temp'' TFloat,
      optional ''rainfall'' TFloat,
      optional ''humidity_9am'' TFloat,
      optional ''humidity_3pm'' TFloat,
      optional ''pressure_9am'' TFloat,
      optional ''pressure_3pm'' TFloat,
      optional ''wind_speed_9am'' TFloat,
      optional ''wind_speed_3pm'' TFloat,
      optional ''wind_dir_9am'' TStr,
      optional ''wind_dir_3pm'' TStr,
      optional ''cloud_9am'' TFloat,
      optional ''cloud_3pm'' TFloat,
      optional ''temp_9am'' TFloat,
      optional ''temp_3pm'' TFloat,
      optional ''rain_today'' TBool,
      optional ''rain_tomorrow'' TBool,
      required ''observation_id'' TInt]"

definition Prediction_fields :: "field list" where
  "Prediction_fields =
     [required ''observation_id'' TInt,
      required ''will_it_rain'' TBool,
      required ''prediction_id'' TInt,
      required ''predicted_at'' TDateTime]"

text \<open>
  Building a response model from the columns of a plain cursor's row: \<open>row[i]\<close> raises
  \<open>TypeError\<close> when there is no row and \<open>IndexError\<close> when the row is too short.
\<close>

definition model_of_row ::
  "string \<Rightarrow> field list \<Rightarrow> (val list \<Rightarrow> doc) \<Rightarrow> nat \<Rightarrow> doc option \<Rightarrow> exn + response" where
  "model_of_row cls fs kwargs n row =
     (case row of
        None \<Rightarrow> Inl (Python TypeError)
      | Some r \<Rightarrow>
          if length r < n then Inl (Python IndexError)
          else
            (case validate_model cls fs (kwargs (map snd r)) of
               Inl e \<Rightarrow> Inl (Python e)
             | Inr d \<Rightarrow> Inr (Record d)))"

definition Location_of_row :: "doc option \<Rightarrow> exn + response" where
  "Location_of_row =
     model_of_row ''Location'' Location_fields
       (\<lambda>row. [(''location_id'', row ! 0), (''name'', row ! 1), (''state'', row ! 2)]) 3"

subsection \<open>Locations\<close>

definition create_location ::
  "'db engine \<Rightarrow> LocationBase \<Rightarrow> 'db postgres \<Rightarrow> (exn + response) \<times> 'db postgres" where
  "create_location eng loc w =
     (let (conn, w1) = get_db_connection w
      in case execute eng (INSERT_locations (name loc) (state loc)) w1 of
           Inl e \<Rightarrow> (Inl (Psycopg2Error e), w1)
         | Inr (cur, w2) \<Rightarrow>
             (let row = fetchone cur;
                  w3 = conn_close conn w2
              in (Location_of_row row, w3)))"

definition read_locations :: "'db engine \<Rightarrow> 'db postgres \<Rightarrow> (exn + response) \<times> 'db postgres" where
  "read_locations eng w =
     (let (conn, w1) = get_db_connection w
      in case execute eng SELECT_locations w1 of
           Inl e \<Rightarrow> (Inl (Psycopg2Error e), w1)
         | Inr (cur, w2) \<Rightarrow>
             (let rows = fetched cur;
                  w3 = conn_close conn w2
              in (Inr (Records rows), w3)))"

definition read_location ::
  "'db engine \<Rightarrow> int \<Rightarrow> 'db postgres \<Rightarrow> (exn + response) \<times> 'db postgres" where
  "read_location eng loc_id w =
     (let (conn, w1) = get_db_connection w
      in case execute eng (SELECT_locations_WHERE loc_id) w1 of
           Inl e \<Rightarrow> (Inl (Psycopg2Error e), w1)
         | Inr (cur, w2) \<Rightarrow>
             (let row = fetchone cur;
                  w3 = conn_close conn w2
              in if not_row row
                 then (Inl (Http (HTTPException 404 (NotFound ''Location''))), w3)
                 else (Location_of_row row, w3)))"

definition update_location ::
  "'db engine \<Rightarrow> int \<Rightarrow> LocationBase \<Rightarrow> 'db postgres \<Rightarrow> (exn + response) \<times> 'db postgres" where
  "update_location eng loc_id loc w =
     (let (conn, w1) = get_db_connection w
      in case execute eng (UPDATE_locations (name loc) (state loc) loc_id) w1 of
           Inl e \<Rightarrow> (Inl (Psycopg2Error e), w1)
         | Inr (cur, w2) \<Rightarrow>
             (let row = fetchone cur;
                  w3 = conn_close conn w2
              in if not_row row
                 then (Inl (Http (HTTPException 404 (NotFound ''Location''))), w3)
                 else (Location_of_row row, w3)))"

definition delete_location ::
  "'db engine \<Rightarrow> int \<Rightarrow> 'db postgres \<Rightarrow> (exn + response) \<times> 'db postgres" where
  "delete_location eng loc_id w =
     (let (conn, w1) = get_db_connection w
      in case execute eng (DELETE_locations loc_id) w1 of
           Inl e \<Rightarrow> (Inl (Psycopg2Error e), w1)
         | Inr (cur, w2) \<Rightarrow>
             if rowcount cur = 0
             then (Inl (Http (HTTPException 404 (NotFound ''Location''))), conn_close conn w2)
             else (Inr NoContent, conn_close conn w2))"

subsection \<open>Observations\<close>

definition create_observation ::
  "'db engine \<Rightarrow> ObservationBase \<Rightarrow> 'db postgres \<Rightarrow> (exn + response) \<times> 'db postgres" where
  "create_observation eng obs w =
     (let (conn, w1) = get_db_connection w
      in case execute eng (INSERT_weather_observations obs) w1 of
           Inl e \<Rightarrow> (Inl (Psycopg2Error e), w1)
         | Inr (cur, w2) \<Rightarrow>
             (let row = fetchone cur;
                  w3 = conn_close conn w2
              in (model_of_row ''Observation'' Observation_fields
                    (\<lambda>row. (''observation_id'', row ! 0) # ObservationBase_dict obs) 1 row,
                  w3)))"

definition read_observations ::
  "'db engine \<Rightarrow> 'db postgres \<Rightarrow> (exn + response) \<times> 'db postgres" where
  "read_observations eng w =
     (let (conn, w1) = get_db_connection w
      in case execute eng SELECT_weather_observations w1 of
           Inl e \<Rightarrow> (Inl (Psycopg2Error e), w1)
         | Inr (cur, w2) \<Rightarrow>
             (let rows = fetched cur;
                  w3 = conn_close conn w2
              in (Inr (Records rows), w3)))"

definition read_observation ::
  "'db engine \<Rightarrow> int \<Rightarrow> 'db postgres \<Rightarrow> (exn + response) \<times> 'db postgres" where
  "read_observation eng obs_id w =
     (let (conn, w1) = get_db_connection w
      in case execute eng (SELECT_weather_observations_WHERE obs_id) w1 of
           Inl e \<Rightarrow> (Inl (Psycopg2Error e), w1)
         | Inr (cur, w2) \<Rightarrow>
             (let row = fetchone cur;
                  w3 = conn_close conn w2
              in case row of
                   None \<Rightarrow> (Inl (Http (HTTPException 404 (NotFound ''Observation''))), w3)
                 | Some r \<Rightarrow>
                     if r = []
                     then (Inl (Http (HTTPException 404 (NotFound ''Observation''))), w3)
                     else (Inr (Record r), w3)))"

definition update_observation ::
  "'db engine \<Rightarrow> int \<Rightarrow> ObservationBase \<Rightarrow> 'db postgres
     \<Rightarrow> (exn + response) \<times> 'db postgres" where
  "update_observation eng obs_id obs w =
     (let (conn, w1) = get_db_connection w
      in case execute eng (UPDATE_weather_observations obs obs_id) w1 of
           Inl e \<Rightarrow> (Inl (Psycopg2Error e), w1)
         | Inr (cur, w2) \<Rightarrow>
             (let row = fetchone cur;
                  w3 = conn_close conn w2
              in case row of
                   None \<Rightarrow> (Inl (Http (HTTPException 404 (NotFound ''Observation''))), w3)
                 | Some r \<Rightarrow>
                     if r = []
                     then (Inl (Http (HTTPException 404 (NotFound ''Observation''))), w3)
                     else
                       (case validate_model ''Observation'' Observation_fields r of
                          Inl e \<Rightarrow> (Inl (Python e), w3)
                        | Inr d \<Rightarrow> (Inr (Record d), w3))))"

definition delete_observation ::
  "'db engine \<Rightarrow> int \<Rightarrow> 'db postgres \<Rightarrow> (exn + response) \<times> 'db postgres" where
  "delete_observation eng obs_id w =
     (let (conn, w1) = get_db_connection w
      in case execute eng (DELETE_weather_observations obs_id) w1 of
           Inl e \<Rightarrow> (Inl (Psycopg2Error e), w1)
         | Inr (cur, w2) \<Rightarrow>
             if rowcount cur = 0
             then (Inl (Http (HTTPException 404 (NotFound ''Observation''))), conn_close conn w2)
             else (Inr NoContent, conn_close conn w2))"

subsection \<open>Predictions\<close>

definition create_prediction ::
  "'db engine \<Rightarrow> PredictionBase \<Rightarrow> 'db postgres \<Rightarrow> (exn + response) \<times> 'db postgres" where
  "create_prediction eng pred w =
     (let (conn, w1) = get_db_connection w
      in case execute eng
                (INSERT_rain_predictions (observation_id pred) (will_it_rain pred)) w1 of
           Inl e \<Rightarrow> (Inl (Psycopg2Error e), w1)
         | Inr (cur, w2) \<Rightarrow>
             (let row = fetchone cur;
                  w3 = conn_close conn w2
              in (model_of_row ''Prediction'' Prediction_fields
                    (\<lambda>row. [(''prediction_id'', row ! 0),
                            (''observation_id'', VInt (observation_id pred)),
                            (''will_it_rain'', VBool (will_it_rain pred)),
                            (''predicted_at'', row ! 1)]) 2 row,
                  w3)))"

definition read_predictions ::
  "'db engine \<Rightarrow> 'db postgres \<Rightarrow> (exn + response) \<times> 'db postgres" where
  "read_predictions eng w =
     (let (conn, w1) = get_db_connection w
      in case execute eng SELECT_rain_predictions w1 of
           Inl e \<Rightarrow> (Inl (Psycopg2Error e), w1)
         | Inr (cur, w2) \<Rightarrow>
             (let rows = fetched cur;
                  w3 = conn_close conn w2
              in (Inr (Records rows), w3)))"

definition read_prediction ::
  "'db engine \<Rightarrow> int \<Rightarrow> 'db postgres \<Rightarrow> (exn + response) \<times> 'db postgres" where
  "read_prediction eng pred_id w =
     (let (conn, w1) = get_db_connection w
      in case execute eng (SELECT_rain_predictions_WHERE pred_id) w1 of
           Inl e \<Rightarrow> (Inl (Psycopg2Error e), w1)
         | Inr (cur, w2) \<Rightarrow>
             (let row = fetchone cur;
                  w3 = conn_close conn w2
              in case row of
                   None \<Rightarrow> (Inl (Http (HTTPException 404 (NotFound ''Prediction''))), w3)
                 | Some r \<Rightarrow>
                     if r = []
                     then (Inl (Http (HTTPException 404 (NotFound ''Prediction''))), w3)
                     else (Inr (Record r), w3)))"

definition update_prediction ::
  "'db engine \<Rightarrow> int \<Rightarrow> PredictionBase \<Rightarrow> 'db postgres
     \<Rightarrow> (exn + response) \<times> 'db postgres" where
  "update_prediction eng pred_id pred w =
     (let (conn, w1) = get_db_connection w
      in case execute eng
                (UPDATE_rain_predictions (observation_id pred) (will_it_rain pred) pred_id) w1 of
           Inl e \<Rightarrow> (Inl (Psycopg2Error e), w1)
         | Inr (cur, w2) \<Rightarrow>
             (let row = fetchone cur;
                  w3 = conn_close conn w2
              in if not_row row
                 then (Inl (Http (HTTPException 404 (NotFound ''Prediction''))), w3)
                 else
                   (model_of_row ''Prediction'' Prediction_fields
                      (\<lambda>row. [(''prediction_id'', row ! 0), (''observation_id'', row ! 1),
                              (''will_it_rain'', row ! 2), (''predicted_at'', row ! 3)]) 4 row,
                    w3)))"

definition delete_prediction ::
  "'db engine \<Rightarrow> int \<Rightarrow> 'db postgres \<Rightarrow> (exn + response) \<times> 'db postgres" where
  "delete_prediction eng pred_id w =
     (let (conn, w1) = get_db_connection w
      in case execute eng (DELETE_rain_predictions pred_id) w1 of
           Inl e \<Rightarrow> (Inl (Psycopg2Error e), w1)
         | Inr (cur, w2) \<Rightarrow>
             if rowcount cur = 0
             then (Inl (Http (HTTPException 404 (NotFound ''Prediction''))), conn_close conn w2)
             else (Inr NoContent, conn_close conn w2))"

subsection \<open>The routes\<close>

text \<open>The fifteen relational routes of the application, one per handler.\<close>

datatype request =
    CreateLocation LocationBase
  | ReadLocations
  | ReadLocation int
  | UpdateLocation int LocationBase
  | DeleteLocation int
  | CreateObservation ObservationBase
  | ReadObservations
  | ReadObservation int
  | UpdateObservation int ObservationBase
  | DeleteObservation int
  | CreatePrediction PredictionBase
  | ReadPredictions
  | ReadPrediction int
  | UpdatePrediction int PredictionBase
  | DeletePrediction int

fun app :: "'db engine \<Rightarrow> request \<Rightarrow> 'db postgres \<Rightarrow> (exn + response) \<times> 'db postgres" where
  "app eng (CreateLocation loc) w = create_location eng loc w"
| "app eng ReadLocations w = read_locations eng w"
| "app eng (ReadLocation i) w = read_location eng i w"
| "app eng (UpdateLocation i loc) w = update_location eng i loc w"
| "app eng (DeleteLocation i) w = delete_location eng i w"
| "app eng (CreateObservation obs) w = create_observation eng obs w"
| "app eng ReadObservations w = read_observations eng w"
| "app eng (ReadObservation i) w = read_observation eng i w"
| "app eng (UpdateObservation i obs) w = update_observation eng i obs w"
| "app eng (DeleteObservation i) w = delete_observation eng i w"
| "app eng (CreatePrediction pred) w = create_prediction eng pred w"
| "app eng ReadPredictions w = read_predictions eng w"
| "app eng (ReadPrediction i) w = read_prediction eng i w"
| "app eng (UpdatePrediction i pred) w = update_prediction eng i pred w"
| "app eng (DeletePrediction i) w = delete_prediction eng i w"

subsection \<open>A database server\<close>

text \<open>
  Modelled from the spec: the declarations of the three tables are not among the
  sources. The specification gives each table an identity assigned by the store's native
  sequence, has \<open>predicted_at\<close> assigned by the server and refreshed on every update,
  and lets a delete neither cascade nor fail on dependants. \<open>postgresql now\<close> is such
  a server at the time \<open>now\<close>: an insert into \<open>rain_predictions\<close> and an update of it
  both store \<open>now\<close> as \<open>predicted_at\<close>, and otherwise each statement runs as SQL
  defines it on tables without further constraints, so it never raises. A column that a
  row lacks reads as \<open>NULL\<close>. No property of the handlers is drawn from what this
  server does with \<open>predicted_at\<close>.
\<close>

record pg_db =
  locations_table :: "doc list"
  weather_observations_table :: "doc list"
  rain_predictions_table :: "doc list"
  locations_seq :: int
  weather_observations_seq :: int
  rain_predictions_seq :: int

definition where_eq :: "string \<Rightarrow> int \<Rightarrow> doc \<Rightarrow> bool" where
  "where_eq col i row = (map_of row col = Some (VInt i))"

definition returning :: "string list \<Rightarrow> doc \<Rightarrow> doc" where
  "returning cols row =
     map (\<lambda>col. (col, case map_of row col of None \<Rightarrow> VNone | Some v \<Rightarrow> v)) cols"

definition sql_set :: "doc \<Rightarrow> doc \<Rightarrow> doc" where
  "sql_set assignments row = foldl (\<lambda>r (k, v). dict_set r k v) row assignments"

definition result :: "doc list \<Rightarrow> cursor" where
  "result rs = \<lparr>fetched = rs, rowcount = length rs\<rparr>"

definition sql_update :: "string \<Rightarrow> int \<Rightarrow> doc \<Rightarrow> doc list \<Rightarrow> doc list" where
  "sql_update col i assignments tab =
     map (\<lambda>row. if where_eq col i row then sql_set assignments row else row) tab"

definition sql_delete :: "string \<Rightarrow> int \<Rightarrow> doc list \<Rightarrow> doc list" where
  "sql_delete col i tab = filter (\<lambda>row. \<not> where_eq col i row) tab"

definition deleted :: "string \<Rightarrow> int \<Rightarrow> doc list \<Rightarrow> cursor" where
  "deleted col i tab = \<lparr>fetched = [], rowcount = length (filter (where_eq col i) tab)\<rparr>"

fun postgresql :: "pydatetime \<Rightarrow> pg_db engine" where
  "postgresql now (INSERT_locations n st) db =
     (let i = locations_seq db + 1;
          row = [(''location_id'', VInt i), (''name'', VStr n), (''state'', opt VStr st)]
      in Inr (result [row],
              db\<lparr>locations_table := locations_table db @ [row], locations_seq := i\<rparr>))"
| "postgresql now SELECT_locations db =
     Inr (result (map (returning [''location_id'', ''name'', ''state'']) (locations_table db)),
          db)"
| "postgresql now (SELECT_locations_WHERE i) db =
     Inr (result (map (returning [''location_id'', ''name'', ''state''])
                    (filter (where_eq ''location_id'' i) (locations_table db))),
          db)"
| "postgresql now (UPDATE_locations n st i) db =
     (let tab = sql_update ''location_id'' i
                  [(''name'', VStr n), (''state'', opt VStr st)] (locations_table db)
      in Inr (result (map (returning [''location_id'', ''name'', ''state''])
                        (filter (where_eq ''location_id'' i) tab)),
              db\<lparr>locations_table := tab\<rparr>))"
| "postgresql now (DELETE_locations i) db =
     Inr (deleted ''location_id'' i (locations_table db),
          db\<lparr>locations_table := sql_delete ''location_id'' i (locations_table db)\<rparr>)"
| "postgresql now (INSERT_weather_observations obs) db =
     (let i = weather_observations_seq db + 1;
          row = (''observation_id'', VInt i) # ObservationBase_dict obs
      in Inr (result [returning [''observation_id''] row],
              db\<lparr>weather_observations_table := weather_observations_table db @ [row],
                 weather_observations_seq := i\<rparr>))"
| "postgresql now SELECT_weather_observations db =
     Inr (result (weather_observations_table db), db)"
| "postgresql now (SELECT_weather_observations_WHERE i) db =
     Inr (result (filter (where_eq ''observation_id'' i) (weather_observations_table db)), db)"
| "postgresql now (UPDATE_weather_observations obs i) db =
     (let tab = sql_update ''observation_id'' i (ObservationBase_dict obs)
                  (weather_observations_table db)
      in Inr (result (filter (where_eq ''observation_id'' i) tab),
              db\<lparr>weather_observations_table := tab\<rparr>))"
| "postgresql now (DELETE_weather_observations i) db =
     Inr (deleted ''observation_id'' i (weather_observations_table db),
          db\<lparr>weather_observations_table :=
               sql_delete ''observation_id'' i (weather_observations_table db)\<rparr>)"
| "postgresql now (INSERT_rain_predictions obs_id rain) db =
     (let i = rain_predictions_seq db + 1;
          row = [(''prediction_id'', VInt i), (''observation_id'', VInt obs_id),
                 (''will_it_rain'', VBool rain), (''predicted_at'', VDateTime now)]
      in Inr (result [returning [''prediction_id'', ''predicted_at''] row],
              db\<lparr>rain_predictions_table := rain_predictions_table db @ [row],
                 rain_predictions_seq := i\<rparr>))"
| "postgresql now SELECT_rain_predictions db =
     Inr (result (rain_predictions_table db), db)"
| "postgresql now (SELECT_rain_predictions_WHERE i) db =
     Inr (result (filter (where_eq ''prediction_id'' i) (rain_predictions_table db)), db)"
| "postgresql now (UPDATE_rain_predictions obs_id rain i) db =
     (let tab = sql_update ''prediction_id'' i
                  [(''observation_id'', VInt obs_id), (''will_it_rain'', VBool rain),
                   (''predicted_at'', VDateTime now)]
                  (rain_predictions_table db)
      in Inr (result (map (returning [''prediction_id'', ''observation_id'', ''will_it_rain'',
                                      ''predicted_at''])
                        (filter (where_eq ''prediction_id'' i) tab)),
              db\<lparr>rain_predictions_table := tab\<rparr>))"
| "postgresql now (DELETE_rain_predictions i) db =
     Inr (deleted ''prediction_id'' i (rain_predictions_table db),
          db\<lparr>rain_predictions_table :=
               sql_delete ''prediction_id'' i (rain_predictions_table db)\<rparr>)"

text \<open>
  A server on which every statement fails, as when the connection drops or the
  statement times out after the connection was made.
\<close>

definition server_gone :: "'db engine" where
  "server_gone stmt db = Inl ''server closed the connection unexpectedly''"

section \<open>Runs and example data\<close>

text \<open>\<open>successive_calls T N\<close> calls the allocator \<open>N\<close> times in a row for the entity type \<open>T\<close>.\<close>

fun successive_calls :: "string \<Rightarrow> nat \<Rightarrow> db_mongo \<Rightarrow> int list \<times> db_mongo" where
  "successive_calls T 0 s = ([], s)"
| "successive_calls T (Suc n) s =
     (let (v, s1) = get_next_sequence_value T s;
          (vs, s2) = successive_calls T n s1
      in (v # vs, s2))"

text \<open>The value a counter stands at, an absent counter standing at zero.\<close>

definition counter_value :: "db_mongo \<Rightarrow> string \<Rightarrow> int" where
  "counter_value s T = (case counters s T of None \<Rightarrow> 0 | Some n \<Rightarrow> n)"

definition empty_db :: db_mongo where
  "empty_db = \<lparr>counters = Map.empty, locations = [], weather_observations = [],
                rain_predictions = []\<rparr>"

text \<open>
  The data of the scenario: the location Sydney, NSW, and an observation of a given
  location on a given day with no reading filled in.
\<close>

definition sydney :: LocationBase where
  "sydney = \<lparr>name = ''Sydney'', state = Some ''NSW''\<rparr>"

definition observation_on :: "int \<Rightarrow> pydate \<Rightarrow> ObservationBase" where
  "observation_on loc_id d =
     \<lparr>location_id = loc_id, date = d, min_temp = None, max_temp = None, rainfall = None,
      humidity_9am = None, humidity_3pm = None, pressure_9am = None, pressure_3pm = None,
      wind_speed_9am = None, wind_speed_3pm = None, wind_dir_9am = None, wind_dir_3pm = None,
      cloud_9am = None, cloud_3pm = None, temp_9am = None, temp_3pm = None,
      rain_today = None, rain_tomorrow = None\<rparr>"

text \<open>
  The stores of the scenario: after the location is created, after an observation of it
  is created, and after the location is deleted again.
\<close>

definition db_sydney :: db_mongo where
  "db_sydney = snd (create_mongo_location sydney empty_db)"

definition db_observed :: db_mongo where
  "db_observed = snd (create_mongo_observation (observation_on 1 (Date 2023 1 1)) db_sydney)"

definition db_orphaned :: db_mongo where
  "db_orphaned = snd (delete_mongo_location 1 db_observed)"

text \<open>
  A second observation of the same location, and a prediction for the first one made at
  \<open>noon\<close> (the client sent another \<open>predicted_at\<close>).
\<close>

definition noon :: "pydate \<Rightarrow> pydatetime" where
  "noon d = DateTime d (Time 12 0 0 0)"

definition db_observed_twice :: db_mongo where
  "db_observed_twice =
     snd (create_mongo_observation (observation_on 1 (Date 2023 1 2)) db_observed)"

definition db_predicted :: db_mongo where
  "db_predicted =
     snd (create_mongo_prediction
            \<lparr>observation_id = 1, will_it_rain = True, predicted_at = noon (Date 2000 1 1)\<rparr>
            (noon (Date 2023 1 3)) (noon (Date 2023 1 3)) db_observed_twice)"

text \<open>The stored form of the scenario's location and of its first observation.\<close>

definition sydney_doc :: doc where
  "sydney_doc =
     [(''_id'', VObjectId 1), (''name'', VStr ''Sydney''), (''state'', VStr ''NSW''),
      (''location_id'', VInt 1)]"

definition observation_doc :: "nat \<Rightarrow> int \<Rightarrow> int \<Rightarrow> pydate \<Rightarrow> doc" where
  "observation_doc oid obs_id loc_id d =
     [(''_id'', VObjectId oid), (''location_id'', VInt loc_id),
      (''date'', VDateTime (DateTime d (Time 0 0 0 0))),
      (''min_temp'', VNone), (''max_temp'', VNone), (''rainfall'', VNone),
      (''humidity_9am'', VNone), (''humidity_3pm'', VNone),
      (''pressure_9am'', VNone), (''pressure_3pm'', VNone),
      (''wind_speed_9am'', VNone), (''wind_speed_3pm'', VNone),
      (''wind_dir_9am'', VNone), (''wind_dir_3pm'', VNone),
      (''cloud_9am'', VNone), (''cloud_3pm'', VNone), (''temp_9am'', VNone),
      (''temp_3pm'', VNone), (''rain_today'', VNone),
      (''rain_tomorrow'', VNone), (''observation_id'', VInt obs_id)]"

text \<open>
  What the specification expects back from the round trip of an observation, in its own
  words: the same logical field values as the input, a date-only value promoted to the
  timestamp at midnight of that date, and the identity that the allocator issued.
\<close>

definition promote :: "val \<Rightarrow> val" where
  "promote v = (case v of VDate d \<Rightarrow> VDateTime (DateTime d (Time 0 0 0 0)) | _ \<Rightarrow> v)"

definition logical_record :: "int \<Rightarrow> ObservationBase \<Rightarrow> doc" where
  "logical_record obs_id obs =
     map (\<lambda>(k, v). (k, promote v)) (ObservationBase_dict obs)
     @ [(''observation_id'', VInt obs_id)]"

text \<open>The relational side of the scenario: no connection yet and empty tables.\<close>

definition empty_postgres :: "pg_db postgres" where
  "empty_postgres =
     \<lparr>connections = [],
      database = \<lparr>locations_table = [], weather_observations_table = [],
                  rain_predictions_table = [], locations_seq = 0,
                  weather_observations_seq = 0, rain_predictions_seq = 0\<rparr>\<rparr>"

text \<open>
  The identities in use lie below the counter: every observation document that carries
  an integer \<open>observation_id\<close> carries one that the counter \<open>observations\<close> has
  already passed.
\<close>

definition id_at_most :: "int \<Rightarrow> doc \<Rightarrow> bool" where
  "id_at_most c d =
     (case map_of d ''observation_id'' of Some (VInt n) \<Rightarrow> n \<le> c | _ \<Rightarrow> True)"

definition ids_allocated :: "db_mongo \<Rightarrow> bool" where
  "ids_allocated s =
     list_all (id_at_most (counter_value s ''observations'')) (weather_observations s)"

section \<open>The sequence allocator\<close>

lemma counter_value_next:
  "get_next_sequence_value T s = (v, s1) \<Longrightarrow>
     v = counter_value s T + 1 \<and> counter_value s1 T = v"
  by (auto simp: get_next_sequence_value_def counter_value_def Let_def)

lemma successive_calls_from:
  "fst (successive_calls T N s) = [counter_value s T + 1 .. counter_value s T + int N]"
proof (induction N arbitrary: s)
  case 0
  show ?case by simp
next
  case (Suc N)
  obtain v s1 where g: "get_next_sequence_value T s = (v, s1)" by fastforce
  from counter_value_next[OF g]
  have v: "v = counter_value s T + 1" and c1: "counter_value s1 T = v" by auto
  have "fst (successive_calls T (Suc N) s) = v # fst (successive_calls T N s1)"
    using g by (simp add: split_beta)
  also have "\<dots> = v # [v + 1 .. v + int N]" using Suc.IH[of s1] c1 by simp
  also have "\<dots> = [v .. v + int N]" by (simp add: upto_rec1[of v])
  finally show ?case using v by (simp add: add.commute add.left_commute)
qed

text \<open>
  C4. Starting from an absent counter, \<open>N\<close> successive allocator calls for one entity
  type return exactly 1, 2, ..., \<open>N\<close> in this order, so the values are strictly
  increasing and pairwise distinct; the first call creates the counter and returns 1.
\<close>

theorem allocator_one_to_N:
  assumes "counters s T = None"
  shows "fst (successive_calls T N s) = [1 .. int N]
       \<and> sorted_wrt (<) (fst (successive_calls T N s))
       \<and> distinct (fst (successive_calls T N s))
       \<and> fst (get_next_sequence_value T s) = 1
       \<and> counters (snd (get_next_sequence_value T s)) T = Some 1"
proof -
  have c: "counter_value s T = 0" using assms by (simp add: counter_value_def)
  have r: "fst (successive_calls T N s) = [1 .. int N]"
    using successive_calls_from[of T N s] c by simp
  have "sorted_wrt (<) [1 .. int N]" by (simp add: sorted_wrt_upto)
  moreover have "distinct [1 .. int N]" by simp
  ultimately show ?thesis using r assms
    by (simp add: get_next_sequence_value_def)
qed

theorem allocator_one_to_N_witness:
  "counters empty_db ''observations'' = None
   \<and> fst (successive_calls ''observations'' 3 empty_db) = [1, 2, 3]"
proof -
  have h: "counters empty_db ''observations'' = None" by (simp add: empty_db_def)
  have u: "[1 .. int 3] = [1, 2, 3]" by (simp add: upto_rec1)
  show ?thesis using h u allocator_one_to_N[OF h, of 3] by simp
qed

section \<open>The store operations\<close>

lemma next_sequence_collections:
  "locations (snd (get_next_sequence_value T s)) = locations s"
  "weather_observations (snd (get_next_sequence_value T s)) = weather_observations s"
  "rain_predictions (snd (get_next_sequence_value T s)) = rain_predictions s"
  by (simp_all add: get_next_sequence_value_def Let_def)

lemma find_one_Some_matches:
  "find_one coll flt = Some d \<Longrightarrow> matches flt d \<and> d \<in> set coll"
  by (auto simp: find_one_def find_Some_iff)

lemma delete_one_found:
  "find_one coll flt = Some d \<Longrightarrow> delete_one coll flt = (1, remove1 d coll)"
proof (induction coll)
  case Nil
  then show ?case by (simp add: find_one_def)
next
  case (Cons x xs)
  show ?case
  proof (cases "matches flt x")
    case True
    then have "d = x" using Cons.prems by (simp add: find_one_def)
    then show ?thesis using True by simp
  next
    case False
    then have f: "find_one xs flt = Some d" using Cons.prems by (simp add: find_one_def)
    have "d \<noteq> x" using find_one_Some_matches[OF f] False by auto
    then show ?thesis using False Cons.IH[OF f] by simp
  qed
qed

section \<open>The stores of the scenario\<close>




lemma db_observed_locations: "locations db_observed = [sydney_doc]"
  unfolding db_observed_def db_sydney_def by code_simp

lemma db_observed_observations:
  "weather_observations db_observed = [observation_doc 1 1 1 (Date 2023 1 1)]"
  unfolding db_observed_def db_sydney_def by code_simp

lemma db_orphaned_locations: "locations db_orphaned = []"
  unfolding db_orphaned_def db_observed_def db_sydney_def by code_simp

lemma db_orphaned_observations:
  "weather_observations db_orphaned = [observation_doc 1 1 1 (Date 2023 1 1)]"
  unfolding db_orphaned_def db_observed_def db_sydney_def by code_simp

lemma db_predicted_locations: "locations db_predicted = [sydney_doc]"
  unfolding db_predicted_def db_observed_twice_def db_observed_def db_sydney_def by code_simp

lemma db_predicted_observations:
  "weather_observations db_predicted =
     [observation_doc 1 1 1 (Date 2023 1 1), observation_doc 2 2 1 (Date 2023 1 2)]"
  unfolding db_predicted_def db_observed_twice_def db_observed_def db_sydney_def by code_simp

lemma db_predicted_predictions:
  "rain_predictions db_predicted =
     [[(''_id'', VObjectId 1), (''observation_id'', VInt 1), (''will_it_rain'', VBool True),
       (''predicted_at'', VDateTime (DateTime (Date 2023 1 3) (Time 12 0 0 0))),
       (''location_id'', VInt 1), (''prediction_id'', VInt 1)]]"
  unfolding db_predicted_def db_observed_twice_def db_observed_def db_sydney_def by code_simp

lemma read_observation_doc:
  "weather_observations s = [observation_doc 1 1 l d] \<Longrightarrow>
     read_mongo_observation 1 s = Inr (without_id (observation_doc 1 1 l d))"
  by (simp add: read_mongo_observation_def find_one_def matches_def observation_doc_def
        without_id_def validate_model_def MongoObservation_fields_def required_def
        optional_def)

section \<open>Creating an observation\<close>

text \<open>
  C3. Creating an observation whose \<open>location_id\<close> matches no location document fails
  with the 404 of \<open>verify_location_exists\<close> and returns the store as it was: no
  counter is touched, so no observation ID is allocated, and no document is written.
\<close>

theorem create_observation_unknown_location:
  assumes "find_one (locations s) [(''location_id'', VInt (location_id obs))] = None"
  shows "create_mongo_observation obs s =
           (Inl (HTTPException 404 (LocationNotFoundCreateFirst (VInt (location_id obs)))), s)"
  using assms by (simp add: create_mongo_observation_def verify_location_exists_def)

theorem create_observation_unknown_location_witness:
  "find_one (locations empty_db)
      [(''location_id'', VInt (location_id (observation_on 7 (Date 2023 1 1))))] = None
   \<and> create_mongo_observation (observation_on 7 (Date 2023 1 1)) empty_db =
       (Inl (HTTPException 404 (LocationNotFoundCreateFirst (VInt 7))), empty_db)"
proof -
  have h: "find_one (locations empty_db)
             [(''location_id'', VInt (location_id (observation_on 7 (Date 2023 1 1))))] = None"
    by (simp add: empty_db_def find_one_def)
  have l: "location_id (observation_on 7 (Date 2023 1 1)) = 7"
    by (simp add: observation_on_def)
  show ?thesis using h create_observation_unknown_location[OF h] l by simp
qed

section \<open>Creating a prediction\<close>

text \<open>
  C1. \<open>create_mongo_prediction\<close> calls the allocator on its first line, before it looks
  the observation up. On the empty store, a prediction for observation 1 fails with the
  404 for the observation, and the counter \<open>predictions\<close>, absent before, stands at 1
  afterwards: a prediction ID was allocated before the failure.
\<close>

theorem create_prediction_allocates_first:
  "fst (create_mongo_prediction
          \<lparr>observation_id = 1, will_it_rain = True, predicted_at = noon (Date 2023 1 1)\<rparr>
          now utcnow empty_db) = Inl (HTTPException 404 (ObservationNotFound 1))
   \<and> counters empty_db ''predictions'' = None
   \<and> counters (snd (create_mongo_prediction
          \<lparr>observation_id = 1, will_it_rain = True, predicted_at = noon (Date 2023 1 1)\<rparr>
          now utcnow empty_db)) ''predictions'' = Some 1"
  by (simp add: create_mongo_prediction_def empty_db_def get_next_sequence_value_def
        find_one_def)

text \<open>
  C6. When the observation of a new prediction exists and the \<open>location_id\<close> stored in
  it matches no location document, creating the prediction fails with the 404 of
  \<open>verify_location_exists\<close>, and no prediction document is written.
\<close>

theorem create_prediction_deleted_location:
  assumes "find_one (weather_observations s)
             [(''observation_id'', VInt (observation_id pred))] = Some observation"
    and "map_of observation ''location_id'' = Some l"
    and "find_one (locations s) [(''location_id'', l)] = None"
  shows "fst (create_mongo_prediction pred now utcnow s) =
           Inl (HTTPException 404 (LocationNotFoundCreateFirst l))
       \<and> rain_predictions (snd (create_mongo_prediction pred now utcnow s)) =
           rain_predictions s"
proof -
  obtain v s1 where g: "get_next_sequence_value ''predictions'' s = (v, s1)" by fastforce
  have s1: "s1 = snd (get_next_sequence_value ''predictions'' s)" using g by simp
  have o: "find_one (weather_observations s1)
             [(''observation_id'', VInt (observation_id pred))] = Some observation"
    using assms(1) by (simp add: s1 next_sequence_collections)
  have v: "verify_location_exists l s1 =
             Inl (HTTPException 404 (LocationNotFoundCreateFirst l))"
    using assms(3) by (simp add: s1 verify_location_exists_def next_sequence_collections)
  have "create_mongo_prediction pred now utcnow s =
          (Inl (HTTPException 404 (LocationNotFoundCreateFirst l)), s1)"
    by (simp add: create_mongo_prediction_def g o assms(2) v)
  then show ?thesis by (simp add: s1 next_sequence_collections)
qed

theorem create_prediction_deleted_location_witness:
  "find_one (weather_observations db_orphaned) [(''observation_id'', VInt 1)] =
      Some (observation_doc 1 1 1 (Date 2023 1 1))
   \<and> map_of (observation_doc 1 1 1 (Date 2023 1 1)) ''location_id'' = Some (VInt 1)
   \<and> find_one (locations db_orphaned) [(''location_id'', VInt 1)] = None
   \<and> fst (create_mongo_prediction
            \<lparr>observation_id = 1, will_it_rain = True, predicted_at = noon (Date 2023 1 1)\<rparr>
            (noon (Date 2023 1 2)) (noon (Date 2023 1 2)) db_orphaned) =
       Inl (HTTPException 404 (LocationNotFoundCreateFirst (VInt 1)))"
proof -
  let ?pred = "\<lparr>observation_id = 1, will_it_rain = True, predicted_at = noon (Date 2023 1 1)\<rparr>"
  let ?doc = "observation_doc 1 1 1 (Date 2023 1 1)"
  have h1: "find_one (weather_observations db_orphaned)
              [(''observation_id'', VInt (observation_id ?pred))] = Some ?doc"
    by (simp add: db_orphaned_observations find_one_def matches_def observation_doc_def)
  have h2: "map_of ?doc ''location_id'' = Some (VInt 1)"
    by (simp add: observation_doc_def)
  have h3: "find_one (locations db_orphaned) [(''location_id'', VInt 1)] = None"
    by (simp add: db_orphaned_locations find_one_def)
  show ?thesis
    using create_prediction_deleted_location[OF h1 h2 h3] h1 h2 h3 by simp
qed

section \<open>Deleting a location\<close>

text \<open>
  C9. Deleting a location that exists (a document found under the ID, holding the
  \<open>name\<close> the data model requires) succeeds. It removes that one document from
  \<open>locations\<close> and leaves the observations, the predictions and the counters as they
  were, so that reading any observation afterwards gives what it gave before, dangling
  \<open>location_id\<close> included.
\<close>

theorem delete_location_no_cascade:
  assumes "find_one (locations s) [(''location_id'', VInt loc_id)] = Some d"
    and "map_of d ''name'' = Some n"
  shows "fst (delete_mongo_location loc_id s) = Inr ()
       \<and> locations (snd (delete_mongo_location loc_id s)) = remove1 d (locations s)
       \<and> weather_observations (snd (delete_mongo_location loc_id s)) = weather_observations s
       \<and> rain_predictions (snd (delete_mongo_location loc_id s)) = rain_predictions s
       \<and> counters (snd (delete_mongo_location loc_id s)) = counters s
       \<and> read_mongo_observation obs_id (snd (delete_mongo_location loc_id s)) =
           read_mongo_observation obs_id s"
proof -
  have "delete_mongo_location loc_id s = (Inr (), s\<lparr>locations := remove1 d (locations s)\<rparr>)"
    using assms by (simp add: delete_mongo_location_def delete_one_found)
  then show ?thesis by (simp add: read_mongo_observation_def)
qed

theorem delete_location_no_cascade_witness:
  "find_one (locations db_observed) [(''location_id'', VInt 1)] = Some sydney_doc
   \<and> map_of sydney_doc ''name'' = Some (VStr ''Sydney'')
   \<and> fst (delete_mongo_location 1 db_observed) = Inr ()
   \<and> locations (snd (delete_mongo_location 1 db_observed)) = []
   \<and> read_mongo_observation 1 (snd (delete_mongo_location 1 db_observed)) =
       Inr (without_id (observation_doc 1 1 1 (Date 2023 1 1)))
   \<and> map_of (without_id (observation_doc 1 1 1 (Date 2023 1 1))) ''location_id'' =
       Some (VInt 1)"
proof -
  have h1: "find_one (locations db_observed) [(''location_id'', VInt 1)] = Some sydney_doc"
    by (simp add: db_observed_locations find_one_def matches_def sydney_doc_def)
  have h2: "map_of sydney_doc ''name'' = Some (VStr ''Sydney'')"
    by (simp add: sydney_doc_def)
  have r: "read_mongo_observation 1 db_observed =
             Inr (without_id (observation_doc 1 1 1 (Date 2023 1 1)))"
    using db_observed_observations by (rule read_observation_doc)
  have l: "map_of (without_id (observation_doc 1 1 1 (Date 2023 1 1))) ''location_id'' =
             Some (VInt 1)"
    by (simp add: without_id_def observation_doc_def)
  show ?thesis
    using delete_location_no_cascade[OF h1 h2, of 1] h1 h2 r l
    by (simp add: db_observed_locations)
qed

section \<open>Updating an observation\<close>

text \<open>
  C10. \<open>update_mongo_observation\<close> checks the submitted \<open>location_id\<close> whenever it is
  not zero, whatever the stored document holds: with no such location the update fails
  with the 404 of \<open>verify_location_exists\<close> and the store is as it was. When the
  submitted \<open>location_id\<close> is zero the check is skipped: \<open>update_one\<close> is applied to
  the observations, and the outcome does not depend on the locations in the store.
\<close>

theorem update_observation_location_check:
  "(location_id obs \<noteq> 0
      \<and> find_one (locations s) [(''location_id'', VInt (location_id obs))] = None
      \<longrightarrow> update_mongo_observation obs_id obs s =
            (Inl (HTTPException 404 (LocationNotFoundCreateFirst (VInt (location_id obs)))), s))
   \<and> (location_id obs = 0
      \<longrightarrow> weather_observations (snd (update_mongo_observation obs_id obs s)) =
            snd (update_one (weather_observations s) [(''observation_id'', VInt obs_id)]
                   (promote_date (ObservationBase_dict obs)))
        \<and> fst (update_mongo_observation obs_id obs (s\<lparr>locations := locs\<rparr>)) =
            fst (update_mongo_observation obs_id obs s))"
  by (auto simp: update_mongo_observation_def verify_location_exists_def Let_def split_beta
           split: option.splits sum.splits)

theorem update_observation_location_check_witness:
  "location_id (observation_on 1 (Date 2023 1 1)) \<noteq> 0
   \<and> find_one (locations db_orphaned) [(''location_id'', VInt 1)] = None
   \<and> map_of (observation_doc 1 1 1 (Date 2023 1 1)) ''location_id'' = Some (VInt 1)
   \<and> update_mongo_observation 1 (observation_on 1 (Date 2023 1 1)) db_orphaned =
       (Inl (HTTPException 404 (LocationNotFoundCreateFirst (VInt 1))), db_orphaned)
   \<and> location_id (observation_on 0 (Date 2023 1 5)) = 0
   \<and> find_one (locations db_observed) [(''location_id'', VInt 0)] = None
   \<and> weather_observations
        (snd (update_mongo_observation 1 (observation_on 0 (Date 2023 1 5)) db_observed)) =
       [observation_doc 1 1 0 (Date 2023 1 5)]"
proof -
  have l1: "location_id (observation_on 1 (Date 2023 1 1)) = 1"
    by (simp add: observation_on_def)
  have l0: "location_id (observation_on 0 (Date 2023 1 5)) = 0"
    by (simp add: observation_on_def)
  have h: "find_one (locations db_orphaned) [(''location_id'', VInt 1)] = None"
    by (simp add: db_orphaned_locations find_one_def)
  have h0: "find_one (locations db_observed) [(''location_id'', VInt 0)] = None"
    by (simp add: db_observed_locations find_one_def matches_def sydney_doc_def)
  have m: "map_of (observation_doc 1 1 1 (Date 2023 1 1)) ''location_id'' = Some (VInt 1)"
    by (simp add: observation_doc_def)
  have u: "snd (update_one [observation_doc 1 1 1 (Date 2023 1 1)]
                  [(''observation_id'', VInt 1)]
                  (promote_date (ObservationBase_dict (observation_on 0 (Date 2023 1 5))))) =
           [observation_doc 1 1 0 (Date 2023 1 5)]"
    by code_simp
  have a: "update_mongo_observation 1 (observation_on 1 (Date 2023 1 1)) db_orphaned =
             (Inl (HTTPException 404 (LocationNotFoundCreateFirst (VInt 1))), db_orphaned)"
    using update_observation_location_check
            [of "observation_on 1 (Date 2023 1 1)" db_orphaned 1] l1 h
    by simp
  have b: "weather_observations
             (snd (update_mongo_observation 1 (observation_on 0 (Date 2023 1 5)) db_observed)) =
           [observation_doc 1 1 0 (Date 2023 1 5)]"
    using update_observation_location_check
            [of "observation_on 0 (Date 2023 1 5)" db_observed 1] l0 u
    by (simp add: db_observed_observations)
  show ?thesis using a b l1 l0 h h0 m by simp
qed

section \<open>Updating a prediction\<close>

lemma update_prediction_changed_reference:
  assumes "find_one (rain_predictions s) [(''prediction_id'', VInt pred_id)] = Some existing"
    and "map_of existing ''observation_id'' = Some stored"
    and "VInt (observation_id pred) \<noteq> stored"
    and "find_one (weather_observations s)
           [(''observation_id'', VInt (observation_id pred))] = Some observation"
    and "map_of observation ''location_id'' = Some l"
    and "find_one (locations s) [(''location_id'', l)] = Some location"
  shows "update_mongo_prediction pred_id pred now utcnow s =
           (Inl (HTTPException 500 (Failed ''update prediction'' (UnboundLocalError ''data''))),
            s)"
  using assms by (simp add: update_mongo_prediction_def verify_location_exists_def)

text \<open>
  C5. In the store of the scenario, prediction 1 refers to observation 1; observation 2
  and its location 1 both exist. Updating prediction 1 to refer to observation 2 passes
  both checks and then fails with a 500 carrying \<open>UnboundLocalError\<close>; the store is as
  it was. The update that the claim expects to succeed does not.
\<close>

theorem update_prediction_changed_reference_fails:
  "find_one (rain_predictions db_predicted) [(''prediction_id'', VInt 1)] \<noteq> None
   \<and> find_one (weather_observations db_predicted) [(''observation_id'', VInt 2)] =
       Some (observation_doc 2 2 1 (Date 2023 1 2))
   \<and> find_one (locations db_predicted) [(''location_id'', VInt 1)] = Some sydney_doc
   \<and> update_mongo_prediction 1 \<lparr>observation_id = 2, will_it_rain = True\<rparr> now utcnow
        db_predicted =
       (Inl (HTTPException 500 (Failed ''update prediction'' (UnboundLocalError ''data''))),
        db_predicted)"
proof -
  let ?pred = "\<lparr>observation_id = 2, will_it_rain = True\<rparr>"
  have h1: "find_one (rain_predictions db_predicted) [(''prediction_id'', VInt 1)] =
     Some [(''_id'', VObjectId 1), (''observation_id'', VInt 1), (''will_it_rain'', VBool True),
       (''predicted_at'', VDateTime (DateTime (Date 2023 1 3) (Time 12 0 0 0))),
       (''location_id'', VInt 1), (''prediction_id'', VInt 1)]"
    by (simp add: db_predicted_predictions find_one_def matches_def)
  have h4: "find_one (weather_observations db_predicted)
              [(''observation_id'', VInt (observation_id ?pred))] =
            Some (observation_doc 2 2 1 (Date 2023 1 2))"
    by (simp add: db_predicted_observations find_one_def matches_def observation_doc_def)
  have h5: "map_of (observation_doc 2 2 1 (Date 2023 1 2)) ''location_id'' = Some (VInt 1)"
    by (simp add: observation_doc_def)
  have h6: "find_one (locations db_predicted) [(''location_id'', VInt 1)] = Some sydney_doc"
    by (simp add: db_predicted_locations find_one_def matches_def sydney_doc_def)
  have "update_mongo_prediction 1 ?pred now utcnow db_predicted =
       (Inl (HTTPException 500 (Failed ''update prediction'' (UnboundLocalError ''data''))),
        db_predicted)"
    by (rule update_prediction_changed_reference[OF h1 _ _ h4 h5 h6, of "VInt 1"]) simp_all
  then show ?thesis using h1 h4 h6 by simp
qed

section \<open>The round trip of an observation\<close>

lemma oid_of_less_new: "d \<in> set coll \<Longrightarrow> oid_of d < new_object_id coll"
  by (induction coll) (auto simp: new_object_id_def)

lemma find_one_append:
  "find_one (xs @ ys) flt = (case find_one xs flt of None \<Rightarrow> find_one ys flt | Some d \<Rightarrow> Some d)"
  by (induction xs) (auto simp: find_one_def)

lemma find_one_None_iff: "find_one coll flt = None \<longleftrightarrow> (\<forall>d \<in> set coll. \<not> matches flt d)"
  by (auto simp: find_one_def find_None_iff)

lemma find_one_by_new_id:
  "find_one coll [(''_id'', VObjectId (new_object_id coll))] = None"
proof -
  have "\<not> matches [(''_id'', VObjectId (new_object_id coll))] d" if "d \<in> set coll" for d
  proof
    assume "matches [(''_id'', VObjectId (new_object_id coll))] d"
    then have "oid_of d = new_object_id coll" by (simp add: matches_def oid_of_def)
    then show False using oid_of_less_new[OF that] by simp
  qed
  then show ?thesis by (simp add: find_one_None_iff)
qed

lemma insert_one_result:
  "insert_one coll d =
     (VObjectId (new_object_id coll),
      coll @ [(''_id'', VObjectId (new_object_id coll)) # bson_doc d])"
  by (simp add: insert_one_def Let_def)

lemma find_inserted:
  "find_one (coll @ [(''_id'', VObjectId (new_object_id coll)) # d])
     [(''_id'', VObjectId (new_object_id coll))] =
   Some ((''_id'', VObjectId (new_object_id coll)) # d)"
  by (simp add: find_one_append find_one_by_new_id) (simp add: find_one_def matches_def)

lemma bson_opt [simp]: "bson (opt VFloat x) = opt VFloat x" "bson (opt VStr y) = opt VStr y"
   "bson (opt VBool z) = opt VBool z"
  by (simp_all add: opt_def split: option.splits)

lemma promote_opt [simp]: "promote (opt VFloat x) = opt VFloat x" "promote (opt VStr y) = opt VStr y"
   "promote (opt VBool z) = opt VBool z" "promote (VInt i) = VInt i"
   "promote (VDate d) = VDateTime (DateTime d (Time 0 0 0 0))"
  by (simp_all add: opt_def promote_def split: option.splits)

lemma typed_opt [simp]:
  "(opt VFloat x = VNone \<or> has_type TFloat (opt VFloat x)) = True"
  "(opt VStr y = VNone \<or> has_type TStr (opt VStr y)) = True"
  "(opt VBool z = VNone \<or> has_type TBool (opt VBool z)) = True"
  by (simp_all add: opt_def split: option.splits)

lemma observation_data:
  "dict_set (promote_date (ObservationBase_dict obs)) ''observation_id'' (VInt n) = logical_record n obs"
  by (simp add: promote_date_def ObservationBase_dict_def dict_set_def logical_record_def
        datetime_combine_def datetime_min_time_def)

lemma logical_record_explicit:
  "logical_record n obs = 
     [(''location_id'', VInt (location_id obs)),
      (''date'', VDateTime (DateTime (date obs) (Time 0 0 0 0))),
      (''min_temp'', opt VFloat (min_temp obs)),
      (''max_temp'', opt VFloat (max_temp obs)),
      (''rainfall'', opt VFloat (rainfall obs)),
      (''humidity_9am'', opt VFloat (humidity_9am obs)),
      (''humidity_3pm'', opt VFloat (humidity_3pm obs)),
      (''pressure_9am'', opt VFloat (pressure_9am obs)),
      (''pressure_3pm'', opt VFloat (pressure_3pm obs)),
      (''wind_speed_9am'', opt VFloat (wind_speed_9am obs)),
      (''wind_speed_3pm'', opt VFloat (wind_speed_3pm obs)),
      (''wind_dir_9am'', opt VStr (wind_dir_9am obs)),
      (''wind_dir_3pm'', opt VStr (wind_dir_3pm obs)),
      (''cloud_9am'', opt VFloat (cloud_9am obs)),
      (''cloud_3pm'', opt VFloat (cloud_3pm obs)),
      (''temp_9am'', opt VFloat (temp_9am obs)),
      (''temp_3pm'', opt VFloat (temp_3pm obs)),
      (''rain_today'', opt VBool (rain_today obs)),
      (''rain_tomorrow'', opt VBool (rain_tomorrow obs)),
      (''observation_id'', VInt n)]"
  by (simp add: logical_record_def ObservationBase_dict_def)

lemma bson_logical_record: "bson_doc (logical_record n obs) = logical_record n obs"
  by (simp add: logical_record_explicit bson_doc_def)

lemma without_id_logical_record: "without_id (logical_record n obs) = logical_record n obs"
  by (simp add: logical_record_explicit without_id_def)

lemma validate_logical_record:
  "validate_fields MongoObservation_fields (logical_record n obs) = Some (logical_record n obs)"
  by (simp add: logical_record_explicit MongoObservation_fields_def required_def optional_def)


lemma create_mongo_observation_result:
  assumes "find_one (locations s) [(''location_id'', VInt (location_id obs))] = Some loc"
  shows "create_mongo_observation obs s =
     (Inr (logical_record (counter_value s ''observations'' + 1) obs),
      s\<lparr>counters := (counters s)(''observations'' \<mapsto> counter_value s ''observations'' + 1),
        weather_observations := weather_observations s @
          [(''_id'', VObjectId (new_object_id (weather_observations s))) #
            logical_record (counter_value s ''observations'' + 1) obs]\<rparr>)"
proof -
  let ?n = "counter_value s ''observations'' + 1"
  let ?s1 = "s\<lparr>counters := (counters s)(''observations'' \<mapsto> ?n)\<rparr>"
  let ?i = "VObjectId (new_object_id (weather_observations s))"
  have g: "get_next_sequence_value ''observations'' s = (?n, ?s1)"
    by (simp add: get_next_sequence_value_def counter_value_def Let_def)
  have v: "verify_location_exists (VInt (location_id obs)) s = Inr True"
    using assms by (simp add: verify_location_exists_def)
  have w: "without_id ((''_id'', ?i) # logical_record ?n obs) = logical_record ?n obs"
    using without_id_logical_record[of ?n obs] by (simp add: without_id_def)
  have vm: "validate_model ''MongoObservation'' MongoObservation_fields (logical_record ?n obs)
              = Inr (logical_record ?n obs)"
    by (simp add: validate_model_def validate_logical_record)
  show ?thesis
    unfolding create_mongo_observation_def v g
    by (simp add: observation_data insert_one_result bson_logical_record find_inserted w vm Let_def)
qed


lemma validate_fields_keys:
  "validate_fields fs kw = Some d \<Longrightarrow> map fst d = map fst fs"
proof (induction fs arbitrary: d)
  case Nil
  then show ?case by simp
next
  case (Cons f fs)
  obtain k t n dflt where f: "f = (k, t, n, dflt)" by (cases f)
  from Cons.prems obtain p ps where p: "validate_field f kw = Some p"
    and ps: "validate_fields fs kw = Some ps" and d: "d = p # ps"
    by (auto split: option.splits)
  have "fst p = k" using p f by (auto split: option.splits if_splits)
  then show ?case using Cons.IH[OF ps] d f by simp
qed

lemma read_mongo_observation_no_id:
  assumes "read_mongo_observation obs_id s = Inr data"
  shows "''_id'' \<notin> fst ` set data"
proof -
  from assms obtain doc where
    "validate_fields MongoObservation_fields (without_id doc) = Some data"
    by (auto simp: read_mongo_observation_def validate_model_def split: option.splits)
  then have "map fst data = map fst MongoObservation_fields" by (rule validate_fields_keys)
  then have "set (map fst data) = set (map fst MongoObservation_fields)" by simp
  moreover have "''_id'' \<notin> set (map fst MongoObservation_fields)"
    by (simp add: MongoObservation_fields_def required_def optional_def)
  ultimately show ?thesis by simp
qed



section \<open>Connections of the relational handlers\<close>

text \<open>
  Only the relational handlers acquire a connection; the document-store handlers work
  through the client that the module creates once.
\<close>

lemma execute_connections:
  "execute eng stmt w = Inr (cur, w') \<Longrightarrow> connections w' = connections w"
  by (auto simp: execute_def split: sum.splits)

lemma execute_close:
  assumes "execute eng stmt (w\<lparr>connections := connections w @ [True]\<rparr>) = Inr (cur, w2)"
  shows "connections (conn_close (length (connections w)) w2) = connections w @ [False]"
proof -
  have "connections w2 = connections w @ [True]"
    using execute_connections[OF assms] by simp
  then show ?thesis by (simp add: conn_close_def)
qed

lemma create_location_released:
  "create_location eng loc w = (r, w') \<Longrightarrow> \<forall>e. r \<noteq> Inl (Psycopg2Error e) \<Longrightarrow>
     connections w' = connections w @ [False]"
  by (auto simp: create_location_def get_db_connection_def Let_def execute_close
           split: sum.splits prod.splits)

lemma read_locations_released:
  "read_locations eng w = (r, w') \<Longrightarrow> \<forall>e. r \<noteq> Inl (Psycopg2Error e) \<Longrightarrow>
     connections w' = connections w @ [False]"
  by (auto simp: read_locations_def get_db_connection_def Let_def execute_close
           split: sum.splits prod.splits)

lemma read_location_released:
  "read_location eng i w = (r, w') \<Longrightarrow> \<forall>e. r \<noteq> Inl (Psycopg2Error e) \<Longrightarrow>
     connections w' = connections w @ [False]"
  by (auto simp: read_location_def get_db_connection_def Let_def execute_close
           split: sum.splits prod.splits if_splits)

lemma update_location_released:
  "update_location eng i loc w = (r, w') \<Longrightarrow> \<forall>e. r \<noteq> Inl (Psycopg2Error e) \<Longrightarrow>
     connections w' = connections w @ [False]"
  by (auto simp: update_location_def get_db_connection_def Let_def execute_close
           split: sum.splits prod.splits if_splits)

lemma delete_location_released:
  "delete_location eng i w = (r, w') \<Longrightarrow> \<forall>e. r \<noteq> Inl (Psycopg2Error e) \<Longrightarrow>
     connections w' = connections w @ [False]"
  by (auto simp: delete_location_def get_db_connection_def Let_def execute_close
           split: sum.splits prod.splits if_splits)

lemma create_observation_released:
  "create_observation eng obs w = (r, w') \<Longrightarrow> \<forall>e. r \<noteq> Inl (Psycopg2Error e) \<Longrightarrow>
     connections w' = connections w @ [False]"
  by (auto simp: create_observation_def get_db_connection_def Let_def execute_close
           split: sum.splits prod.splits)

lemma read_observations_released:
  "read_observations eng w = (r, w') \<Longrightarrow> \<forall>e. r \<noteq> Inl (Psycopg2Error e) \<Longrightarrow>
     connections w' = connections w @ [False]"
  by (auto simp: read_observations_def get_db_connection_def Let_def execute_close
           split: sum.splits prod.splits)

lemma read_observation_released:
  "read_observation eng i w = (r, w') \<Longrightarrow> \<forall>e. r \<noteq> Inl (Psycopg2Error e) \<Longrightarrow>
     connections w' = connections w @ [False]"
  by (auto simp: read_observation_def get_db_connection_def Let_def execute_close
           split: sum.splits prod.splits if_splits option.splits)

lemma update_observation_released:
  "update_observation eng i obs w = (r, w') \<Longrightarrow> \<forall>e. r \<noteq> Inl (Psycopg2Error e) \<Longrightarrow>
     connections w' = connections w @ [False]"
  by (auto simp: update_observation_def get_db_connection_def Let_def execute_close
           split: sum.splits prod.splits if_splits option.splits)

lemma delete_observation_released:
  "delete_observation eng i w = (r, w') \<Longrightarrow> \<forall>e. r \<noteq> Inl (Psycopg2Error e) \<Longrightarrow>
     connections w' = connections w @ [False]"
  by (auto simp: delete_observation_def get_db_connection_def Let_def execute_close
           split: sum.splits prod.splits if_splits)

lemma create_prediction_released:
  "create_prediction eng pred w = (r, w') \<Longrightarrow> \<forall>e. r \<noteq> Inl (Psycopg2Error e) \<Longrightarrow>
     connections w' = connections w @ [False]"
  by (auto simp: create_prediction_def get_db_connection_def Let_def execute_close
           split: sum.splits prod.splits)

lemma read_predictions_released:
  "read_predictions eng w = (r, w') \<Longrightarrow> \<forall>e. r \<noteq> Inl (Psycopg2Error e) \<Longrightarrow>
     connections w' = connections w @ [False]"
  by (auto simp: read_predictions_def get_db_connection_def Let_def execute_close
           split: sum.splits prod.splits)

lemma read_prediction_released:
  "read_prediction eng i w = (r, w') \<Longrightarrow> \<forall>e. r \<noteq> Inl (Psycopg2Error e) \<Longrightarrow>
     connections w' = connections w @ [False]"
  by (auto simp: read_prediction_def get_db_connection_def Let_def execute_close
           split: sum.splits prod.splits if_splits option.splits)

lemma update_prediction_released:
  "update_prediction eng i pred w = (r, w') \<Longrightarrow> \<forall>e. r \<noteq> Inl (Psycopg2Error e) \<Longrightarrow>
     connections w' = connections w @ [False]"
  by (auto simp: update_prediction_def get_db_connection_def Let_def execute_close
           split: sum.splits prod.splits if_splits)

lemma delete_prediction_released:
  "delete_prediction eng i w = (r, w') \<Longrightarrow> \<forall>e. r \<noteq> Inl (Psycopg2Error e) \<Longrightarrow>
     connections w' = connections w @ [False]"
  by (auto simp: delete_prediction_def get_db_connection_def Let_def execute_close
           split: sum.splits prod.splits if_splits)

text \<open>
  C2, as amended. Whatever the database server does, a relational handler that does not
  end in a \<open>psycopg2.Error\<close> raised by a store call (it returns, or raises its own 404,
  or fails while building the response) has closed the connection it opened, and has
  touched no other connection.
\<close>

theorem connection_released:
  assumes "app eng req w = (r, w')" and "\<forall>e. r \<noteq> Inl (Psycopg2Error e)"
  shows "connections w' = connections w @ [False]"
proof (cases req)
  case (CreateLocation loc)
  then show ?thesis using assms create_location_released by simp
next
  case ReadLocations
  then show ?thesis using assms read_locations_released by simp
next
  case (ReadLocation i)
  then show ?thesis using assms read_location_released by simp
next
  case (UpdateLocation i loc)
  then show ?thesis using assms update_location_released by simp
next
  case (DeleteLocation i)
  then show ?thesis using assms delete_location_released by simp
next
  case (CreateObservation obs)
  then show ?thesis using assms create_observation_released by simp
next
  case ReadObservations
  then show ?thesis using assms read_observations_released by simp
next
  case (ReadObservation i)
  then show ?thesis using assms read_observation_released by simp
next
  case (UpdateObservation i obs)
  then show ?thesis using assms update_observation_released by simp
next
  case (DeleteObservation i)
  then show ?thesis using assms delete_observation_released by simp
next
  case (CreatePrediction pred)
  then show ?thesis using assms create_prediction_released by simp
next
  case ReadPredictions
  then show ?thesis using assms read_predictions_released by simp
next
  case (ReadPrediction i)
  then show ?thesis using assms read_prediction_released by simp
next
  case (UpdatePrediction i pred)
  then show ?thesis using assms update_prediction_released by simp
next
  case (DeletePrediction i)
  then show ?thesis using assms delete_prediction_released by simp
qed

theorem connection_released_witness:
  "app (postgresql (noon (Date 2023 1 3))) (DeleteLocation 1) empty_postgres =
     (Inl (Http (HTTPException 404 (NotFound ''Location''))),
      empty_postgres\<lparr>connections := [False]\<rparr>)
   \<and> connections (empty_postgres\<lparr>connections := [False]\<rparr>) =
       connections empty_postgres @ [False]"
proof -
  have a: "app (postgresql (noon (Date 2023 1 3))) (DeleteLocation 1) empty_postgres =
             (Inl (Http (HTTPException 404 (NotFound ''Location''))),
              empty_postgres\<lparr>connections := [False]\<rparr>)"
    by (simp add: delete_location_def get_db_connection_def execute_def conn_close_def
          empty_postgres_def deleted_def sql_delete_def)
  have b: "\<forall>e. Inl (Http (HTTPException 404 (NotFound ''Location''))) \<noteq>
               (Inl (Psycopg2Error e) :: exn + response)"
    by simp
  show ?thesis using connection_released[OF a b] a by simp
qed

text \<open>
  The claim as stated fails when a store call raises: with a server that fails on
  \<open>execute\<close>, \<open>create_observation\<close> ends in the \<open>psycopg2.Error\<close> and the connection
  it opened is still open.
\<close>

theorem connection_left_open:
  "fst (app server_gone (CreateObservation (observation_on 1 (Date 2023 1 1)))
          empty_postgres) =
     Inl (Psycopg2Error ''server closed the connection unexpectedly'')
   \<and> connections (snd (app server_gone (CreateObservation (observation_on 1 (Date 2023 1 1)))
                         empty_postgres)) = [True]"
  by (simp add: create_observation_def get_db_connection_def execute_def server_gone_def
        empty_postgres_def)

section \<open>The timestamp of a prediction\<close>

lemma validate_fields_value:
  "validate_fields fs kw = Some d \<Longrightarrow> map_of kw k = Some v \<Longrightarrow> k \<in> fst ` set fs \<Longrightarrow>
     map_of d k = Some v"
proof (induction fs arbitrary: d)
  case Nil
  then show ?case by simp
next
  case (Cons f fs)
  obtain k' t n dflt where f: "f = (k', t, n, dflt)" by (cases f)
  from Cons.prems(1) obtain p ps where p: "validate_field f kw = Some p"
    and ps: "validate_fields fs kw = Some ps" and d: "d = p # ps"
    by (auto split: option.splits)
  show ?case
  proof (cases "k = k'")
    case True
    then have "p = (k, v)" using p f Cons.prems(2) by (auto split: if_splits)
    then show ?thesis using d by simp
  next
    case False
    then have "k \<in> fst ` set fs" using Cons.prems(3) f by auto
    from Cons.IH[OF ps Cons.prems(2) this] have "map_of ps k = Some v" .
    moreover have "fst p = k'" using p f by (auto split: option.splits if_splits)
    ultimately show ?thesis using d False by (cases p) auto
  qed
qed

lemma map_of_without_id: "k \<noteq> ''_id'' \<Longrightarrow> map_of (without_id d) k = map_of d k"
  by (induction d) (auto simp: without_id_def)

lemma map_of_bson_doc: "map_of (bson_doc d) k = map_option bson (map_of d k)"
  by (induction d) (auto simp: bson_doc_def)

lemma prediction_data:
  "dict_set (dict_set (dict_set (MongoPredictionBase_dict pred) ''location_id'' l)
      ''prediction_id'' p) ''predicted_at'' v =
   [(''observation_id'', VInt (observation_id pred)), (''will_it_rain'', VBool (will_it_rain pred)),
    (''predicted_at'', v), (''location_id'', l), (''prediction_id'', p)]"
  by (simp add: MongoPredictionBase_dict_def dict_set_def)

lemma create_prediction_ignores_client:
  "create_mongo_prediction (pred\<lparr>predicted_at := t\<rparr>) now utcnow s =
   create_mongo_prediction pred now utcnow s"
  by (simp add: create_mongo_prediction_def prediction_data Let_def split_beta
        split: option.split sum.split)

lemma predicted_at_field: "''predicted_at'' \<in> fst ` set (MongoPrediction_fields utcnow)"
  by (simp add: MongoPrediction_fields_def required_def)

lemma create_prediction_predicted_at:
  assumes "fst (create_mongo_prediction pred now utcnow s) = Inr data"
  shows "map_of data ''predicted_at'' = Some (bson (VDateTime now))"
proof -
  obtain pid s1 where g: "get_next_sequence_value ''predictions'' s = (pid, s1)" by fastforce
  from assms obtain l where
    v: "validate_fields (MongoPrediction_fields utcnow)
          (without_id ((''_id'', VObjectId (new_object_id (rain_predictions s1))) #
             bson_doc [(''observation_id'', VInt (observation_id pred)),
                       (''will_it_rain'', VBool (will_it_rain pred)),
                       (''predicted_at'', VDateTime now), (''location_id'', l),
                       (''prediction_id'', VInt pid)])) = Some data"
    by (auto simp: create_mongo_prediction_def g prediction_data insert_one_result
          find_inserted validate_model_def Let_def
          split: option.splits sum.splits)
  show ?thesis
    by (rule validate_fields_value[OF v _ predicted_at_field])
       (simp add: map_of_without_id map_of_bson_doc)
qed


lemma map_of_dict_set: "map_of (dict_set d k v) k' = (if k' = k then Some v else map_of d k')"
  by (simp add: dict_set_def update_conv')

lemma refreshed_document:
  "map_of (apply_set (dict_set (PredictionBase_dict pred) ''predicted_at'' (VDateTime now)) d)
     ''predicted_at'' = Some (bson (VDateTime now))
   \<and> map_of (apply_set (dict_set (PredictionBase_dict pred) ''predicted_at'' (VDateTime now)) d)
       ''prediction_id'' = map_of d ''prediction_id''"
  by (simp add: apply_set_def PredictionBase_dict_def dict_set_def update_conv')

lemma update_one_first_match:
  assumes "\<And>d. matches flt d \<Longrightarrow> matches flt (apply_set upd d)"
  shows "find_one coll flt = Some d \<Longrightarrow>
           fst (update_one coll flt upd) = 1
           \<and> find_one (snd (update_one coll flt upd)) flt = Some (apply_set upd d)"
proof (induction coll)
  case Nil
  then show ?case by (simp add: find_one_def)
next
  case (Cons x xs)
  show ?case
  proof (cases "matches flt x")
    case True
    then have "d = x" using Cons.prems by (simp add: find_one_def)
    then show ?thesis using True assms[OF True] by (simp add: find_one_def)
  next
    case False
    then have f: "find_one xs flt = Some d" using Cons.prems by (simp add: find_one_def)
    from Cons.IH[OF f] show ?thesis using False
      by (simp add: find_one_def split_beta)
  qed
qed

lemma update_one_no_match:
  "find_one coll flt = None \<Longrightarrow> update_one coll flt upd = (0, coll)"
  by (induction coll) (auto simp: find_one_def split: if_splits)

lemma update_prediction_predicted_at:
  assumes "fst (update_mongo_prediction pred_id pred now utcnow s) = Inr data"
  shows "map_of data ''predicted_at'' = Some (bson (VDateTime now))"
proof -
  let ?flt = "[(''prediction_id'', VInt pred_id)]"
  let ?upd = "dict_set (PredictionBase_dict pred) ''predicted_at'' (VDateTime now)"
  let ?coll = "snd (update_one (rain_predictions s) ?flt ?upd)"
  from assms obtain existing where e: "find_one (rain_predictions s) ?flt = Some existing"
    by (auto simp: update_mongo_prediction_def split: option.splits)
  have keep: "matches ?flt (apply_set ?upd d)" if "matches ?flt d" for d
    using that refreshed_document[of pred now d] by (simp add: matches_def)
  from update_one_first_match[of ?flt ?upd, OF keep e]
  have f: "find_one ?coll ?flt = Some (apply_set ?upd existing)" by simp
  from assms have
    v: "validate_fields (MongoPrediction_fields utcnow) (without_id (apply_set ?upd existing))
          = Some data"
    by (auto simp: update_mongo_prediction_def e f validate_model_def Let_def split_beta
             split: option.splits sum.splits if_splits)
  show ?thesis
    by (rule validate_fields_value[OF v _ predicted_at_field])
       (simp add: map_of_without_id refreshed_document)
qed


section \<open>Fresh identities\<close>

text \<open>
  The round trip asks that no stored observation carries the ID issued next. That holds
  in the empty store and is kept by every handler above, so it holds in every store that
  these handlers build: a document gets its \<open>observation_id\<close> from the counter, and no
  update writes that field.
\<close>

lemma id_at_most_mono: "id_at_most c d \<Longrightarrow> c \<le> c' \<Longrightarrow> id_at_most c' d"
  by (auto simp: id_at_most_def split: option.splits val.splits)

lemma id_at_most_same_id:
  "map_of d' ''observation_id'' = map_of d ''observation_id'' \<Longrightarrow>
     id_at_most c d' = id_at_most c d"
  by (simp add: id_at_most_def)

lemma id_at_most_no_match:
  "id_at_most c d \<Longrightarrow> \<not> matches [(''observation_id'', VInt (c + 1))] d"
  by (auto simp: id_at_most_def matches_def)

lemma ids_allocated_fresh:
  assumes "ids_allocated s"
  shows "find_one (weather_observations s)
           [(''observation_id'', VInt (counter_value s ''observations'' + 1))] = None"
  using assms id_at_most_no_match
  by (auto simp: ids_allocated_def list_all_iff find_one_None_iff)

lemma ids_allocated_empty: "ids_allocated empty_db"
  by (simp add: ids_allocated_def empty_db_def)

lemma ids_allocated_create_observation:
  assumes "ids_allocated s"
  shows "ids_allocated (snd (create_mongo_observation obs s))"
proof (cases "find_one (locations s) [(''location_id'', VInt (location_id obs))]")
  case None
  then show ?thesis using assms
    by (simp add: create_mongo_observation_def verify_location_exists_def)
next
  case (Some loc)
  let ?c = "counter_value s ''observations''"
  let ?s' = "snd (create_mongo_observation obs s)"
  have c: "counter_value ?s' ''observations'' = ?c + 1"
    by (simp add: create_mongo_observation_result[OF Some] counter_value_def)
  have w: "weather_observations ?s' = weather_observations s @
             [(''_id'', VObjectId (new_object_id (weather_observations s))) #
              logical_record (?c + 1) obs]"
    by (simp add: create_mongo_observation_result[OF Some])
  have old: "list_all (id_at_most (?c + 1)) (weather_observations s)"
    using assms id_at_most_mono[of ?c _ "?c + 1"]
    by (auto simp: ids_allocated_def list_all_iff)
  have new: "id_at_most (?c + 1)
               ((''_id'', VObjectId (new_object_id (weather_observations s))) #
                logical_record (?c + 1) obs)"
    by (simp add: id_at_most_def logical_record_explicit)
  show ?thesis unfolding ids_allocated_def c w using old new by simp
qed

lemma map_of_apply_set_other:
  "k \<notin> fst ` set upd \<Longrightarrow> map_of (apply_set upd d) k = map_of d k"
  unfolding apply_set_def
proof (induction upd arbitrary: d)
  case Nil
  then show ?case by simp
next
  case (Cons a upd)
  obtain k' v' where a: "a = (k', v')" by (cases a)
  have "map_of (foldl (\<lambda>d (k, v). dict_set d k (bson v)) (dict_set d k' (bson v')) upd) k =
          map_of (dict_set d k' (bson v')) k"
    using Cons by simp
  then show ?case using Cons.prems a by (simp add: map_of_dict_set)
qed

lemma update_one_list_all:
  assumes "\<And>d. P d \<Longrightarrow> P (apply_set upd d)"
  shows "list_all P coll \<Longrightarrow> list_all P (snd (update_one coll flt upd))"
  by (induction coll) (auto simp: assms split_beta)

lemma observation_update_keys:
  "''observation_id'' \<notin> fst ` set (promote_date (ObservationBase_dict obs))"
  by (simp add: promote_date_def ObservationBase_dict_def dict_set_def)

lemma update_mongo_observation_state:
  "snd (update_mongo_observation obs_id obs s) = s
   \<or> snd (update_mongo_observation obs_id obs s) =
       s\<lparr>weather_observations :=
            snd (update_one (weather_observations s) [(''observation_id'', VInt obs_id)]
                   (promote_date (ObservationBase_dict obs)))\<rparr>"
  by (auto simp: update_mongo_observation_def Let_def split_beta
           split: sum.splits option.splits)

lemma ids_allocated_update_observation:
  assumes "ids_allocated s"
  shows "ids_allocated (snd (update_mongo_observation obs_id obs s))"
proof -
  let ?c = "counter_value s ''observations''"
  let ?upd = "promote_date (ObservationBase_dict obs)"
  have keep: "id_at_most ?c (apply_set ?upd d)" if "id_at_most ?c d" for d
    using that id_at_most_same_id[OF map_of_apply_set_other[OF observation_update_keys]]
    by simp
  have u: "list_all (id_at_most ?c)
             (snd (update_one (weather_observations s) [(''observation_id'', VInt obs_id)] ?upd))"
    using assms update_one_list_all[of "id_at_most ?c" ?upd, OF keep]
    by (simp add: ids_allocated_def)
  from update_mongo_observation_state[of obs_id obs s] show ?thesis
  proof
    assume "snd (update_mongo_observation obs_id obs s) = s"
    then show ?thesis using assms by simp
  next
    assume e: "snd (update_mongo_observation obs_id obs s) =
       s\<lparr>weather_observations :=
            snd (update_one (weather_observations s) [(''observation_id'', VInt obs_id)] ?upd)\<rparr>"
    show ?thesis unfolding e using u by (simp add: ids_allocated_def counter_value_def)
  qed
qed

lemma ids_allocated_unaffected:
  "weather_observations s' = weather_observations s \<Longrightarrow>
   counters s' ''observations'' = counters s ''observations'' \<Longrightarrow>
   ids_allocated s' = ids_allocated s"
  by (simp add: ids_allocated_def counter_value_def)

lemma ids_allocated_create_location:
  "ids_allocated (snd (create_mongo_location loc s)) = ids_allocated s"
  by (rule ids_allocated_unaffected)
     (simp_all add: create_mongo_location_def get_next_sequence_value_def insert_one_def
        Let_def split: sum.splits)

lemma ids_allocated_delete_location:
  "ids_allocated (snd (delete_mongo_location loc_id s)) = ids_allocated s"
  by (rule ids_allocated_unaffected)
     (simp_all add: delete_mongo_location_def Let_def split_beta split: option.splits)

lemma ids_allocated_create_prediction:
  "ids_allocated (snd (create_mongo_prediction pred now utcnow s)) = ids_allocated s"
  by (rule ids_allocated_unaffected)
     (simp_all add: create_mongo_prediction_def get_next_sequence_value_def insert_one_def
        Let_def split: sum.splits option.splits)

lemma ids_allocated_update_prediction:
  "ids_allocated (snd (update_mongo_prediction pred_id upd now utcnow s)) = ids_allocated s"
  by (rule ids_allocated_unaffected)
     (simp_all add: update_mongo_prediction_def Let_def split_beta
        split: sum.splits option.splits)

end
